theory Spec2Isabelle
  imports Complex_Main "HOL-Library.Sublist" "HOL-Library.AList"
begin

section \<open>Nutrition health score (\<^verbatim>\<open>core/nutrition_api.py\<close>)\<close>

text \<open>
  A nutrition-totals dictionary maps nutrient names to numbers. The numbers are Python
  ints or finite floats; each is modelled by the real number it denotes, and the
  comparisons against the integer thresholds of the source are exact on them.
\<close>

type_synonym nutrition = "string \<rightharpoonup> real"

text \<open>\<^verbatim>\<open>nutrition.get(key, default)\<close>\<close>

definition dict_get :: "('k \<rightharpoonup> 'v) \<Rightarrow> 'k \<Rightarrow> 'v \<Rightarrow> 'v" where
  "dict_get d k dflt = (case d k of None \<Rightarrow> dflt | Some v \<Rightarrow> v)"

text \<open>
  \<^verbatim>\<open>NutritionAPI._calculate_health_score\<close>: the score variable is threaded through the
  seven statements in the order of the source.
\<close>

definition calculate_health_score :: "nutrition \<Rightarrow> int" where
  "calculate_health_score nutrition =
    (let score = 50;
         score = (if dict_get nutrition ''fiber'' 0 \<ge> 25 then score + 15
                  else if dict_get nutrition ''fiber'' 0 \<ge> 15 then score + 10
                  else score);
         score = (if dict_get nutrition ''protein'' 0 \<ge> 50 then score + 10
                  else if dict_get nutrition ''protein'' 0 \<ge> 30 then score + 5
                  else score);
         score = (if dict_get nutrition ''vitamin_c'' 0 \<ge> 90 then score + 10 else score);
         score = (if dict_get nutrition ''calcium'' 0 \<ge> 1000 then score + 5 else score);
         score = (if dict_get nutrition ''sodium'' 0 > 2300 then score - 20
                  else if dict_get nutrition ''sodium'' 0 > 1500 then score - 10
                  else score);
         score = (if dict_get nutrition ''sugars'' 0 > 50 then score - 15
                  else if dict_get nutrition ''sugars'' 0 > 25 then score - 8
                  else score);
         score = (if dict_get nutrition ''fat'' 0 > 78 then score - 10 else score)
     in max 0 (min 100 score))"

subsection \<open>The score as the specification words it\<close>

text \<open>
  The following definitions follow the wording of the specification (a base, threshold
  bonuses, threshold penalties, a clamp); they are compared with the function above.
\<close>

definition nutrient :: "nutrition \<Rightarrow> string \<Rightarrow> real" where
  "nutrient n k = (case n k of Some v \<Rightarrow> v | None \<Rightarrow> 0)"

definition fiber_bonus :: "real \<Rightarrow> int" where
  "fiber_bonus x = (if x \<ge> 25 then 15 else if x \<ge> 15 then 10 else 0)"

definition protein_bonus :: "real \<Rightarrow> int" where
  "protein_bonus x = (if x \<ge> 50 then 10 else if x \<ge> 30 then 5 else 0)"

definition vitamin_c_bonus :: "real \<Rightarrow> int" where
  "vitamin_c_bonus x = (if x \<ge> 90 then 10 else 0)"

definition calcium_bonus :: "real \<Rightarrow> int" where
  "calcium_bonus x = (if x \<ge> 1000 then 5 else 0)"

definition sodium_penalty :: "real \<Rightarrow> int" where
  "sodium_penalty x = (if x > 2300 then 20 else if x > 1500 then 10 else 0)"

definition sugars_penalty :: "real \<Rightarrow> int" where
  "sugars_penalty x = (if x > 50 then 15 else if x > 25 then 8 else 0)"

definition fat_penalty :: "real \<Rightarrow> int" where
  "fat_penalty x = (if x > 78 then 10 else 0)"

definition spec_bonuses :: "nutrition \<Rightarrow> int" where
  "spec_bonuses n =
     fiber_bonus (nutrient n ''fiber'') + protein_bonus (nutrient n ''protein'')
     + vitamin_c_bonus (nutrient n ''vitamin_c'') + calcium_bonus (nutrient n ''calcium'')"

definition spec_penalties :: "nutrition \<Rightarrow> int" where
  "spec_penalties n =
     sodium_penalty (nutrient n ''sodium'') + sugars_penalty (nutrient n ''sugars'')
     + fat_penalty (nutrient n ''fat'')"

definition clamp_score :: "int \<Rightarrow> int" where
  "clamp_score s = (if s < 0 then 0 else if s > 100 then 100 else s)"

section \<open>Python strings\<close>

text \<open>
  A Python \<^verbatim>\<open>str\<close> is modelled as a \<^typ>\<open>string\<close> whose characters stand for the code
  points 0..255. On that range the definitions below agree with \<^verbatim>\<open>str.isspace\<close> (also
  the class \<^verbatim>\<open>\s\<close> of \<^verbatim>\<open>re\<close> on str patterns), \<^verbatim>\<open>str.lower\<close> and
  \<^verbatim>\<open>str.split()\<close>; \<^verbatim>\<open>sub in s\<close> on strings is \<^term>\<open>sublist sub s\<close>.
\<close>

definition py_isspace :: "char \<Rightarrow> bool" where
  "py_isspace c = ((of_char c :: nat) \<in> {9, 10, 11, 12, 13, 28, 29, 30, 31, 32, 133, 160})"

definition lower_char :: "char \<Rightarrow> char" where
  "lower_char c =
    (let n = (of_char c :: nat)
     in if (65 \<le> n \<and> n \<le> 90) \<or> (192 \<le> n \<and> n \<le> 222 \<and> n \<noteq> 215)
        then char_of (n + 32) else c)"

definition py_lower :: "string \<Rightarrow> string" where
  "py_lower s = map lower_char s"



section \<open>JSON values and Python errors\<close>

text \<open>
  The Python objects that \<^verbatim>\<open>json.loads\<close> produces. A dict keeps its items in insertion
  order, so an object is an association list; \<^verbatim>\<open>json.loads\<close> gives distinct keys.
\<close>

datatype json =
    JNull
  | JBool bool
  | JInt int
  | JFloat real
  | JStr string
  | JArr "json list"
  | JObj "(string \<times> json) list"

datatype error =
    JSONDecodeError
  | ValueError string
  | TypeError
  | AttributeError
  | NameError string
  | RecursionError string
  | OtherError string

text \<open>
  \<^verbatim>\<open>key in obj\<close> for a string key: membership among the keys of a dict, among the
  elements of a list, as a substring of a str; any other JSON value is not iterable
  and the test raises TypeError.
\<close>

fun py_in :: "string \<Rightarrow> json \<Rightarrow> error + bool" where
  "py_in k (JObj items) = Inr (k \<in> set (map fst items))"
| "py_in k (JArr xs) = Inr (JStr k \<in> set xs)"
| "py_in k (JStr s) = Inr (sublist k s)"
| "py_in k _ = Inl TypeError"

text \<open>
  \<^verbatim>\<open>all(key in obj for key in required_keys)\<close>: the keys are tested in order, the first
  absent key ends the test, an exception propagates.
\<close>

fun all_keys_in :: "string list \<Rightarrow> json \<Rightarrow> error + bool" where
  "all_keys_in [] obj = Inr True"
| "all_keys_in (k # ks) obj =
     (case py_in k obj of
        Inl e \<Rightarrow> Inl e
      | Inr False \<Rightarrow> Inr False
      | Inr True \<Rightarrow> all_keys_in ks obj)"

section \<open>The AI client (\<^verbatim>\<open>core/ai_client.py\<close>)\<close>

subsection \<open>Regular expressions\<close>

text \<open>
  The part of Python's \<^verbatim>\<open>re\<close> that the two patterns of the source use. A pattern is a
  sequence of items: a character class taken once (\<^verbatim>\<open>c\<close>), repeated greedily (\<^verbatim>\<open>c*\<close>) or
  repeated lazily (\<^verbatim>\<open>c*?\<close>). A class is one character, the dot (every character, as
  both searches pass \<^verbatim>\<open>re.DOTALL\<close>) or \<^verbatim>\<open>\s\<close>.
\<close>

datatype char_class = Lit char | Dot | Space

datatype item = One char_class | Greedy char_class | Lazy char_class

fun in_class :: "char_class \<Rightarrow> char \<Rightarrow> bool" where
  "in_class (Lit c) x = (x = c)"
| "in_class Dot x = True"
| "in_class Space x = py_isspace x"

text \<open>
  \<^term>\<open>match_here p s\<close> matches \<open>p\<close> at the start of \<open>s\<close> the way a backtracking matcher
  does and gives the first match it finds, as the list of the texts taken by the items:
  a greedy repetition first tries to take one more character and only then to go on with
  the rest of the pattern, a lazy one first tries to go on and only then takes one more.
  The third argument of the two repetitions is the text taken so far.
\<close>

fun match_here :: "item list \<Rightarrow> string \<Rightarrow> string list option"
  and repeat_greedy :: "char_class \<Rightarrow> item list \<Rightarrow> string \<Rightarrow> string \<Rightarrow> string list option"
  and repeat_lazy :: "char_class \<Rightarrow> item list \<Rightarrow> string \<Rightarrow> string \<Rightarrow> string list option" where
  "match_here [] s = Some []"
| "match_here (One c # p) [] = None"
| "match_here (One c # p) (x # xs) =
     (if in_class c x then map_option ((#) [x]) (match_here p xs) else None)"
| "match_here (Greedy c # p) s = repeat_greedy c p [] s"
| "match_here (Lazy c # p) s = repeat_lazy c p [] s"
| "repeat_greedy c p taken [] = map_option ((#) taken) (match_here p [])"
| "repeat_greedy c p taken (x # xs) =
     (if in_class c x then
        (case repeat_greedy c p (taken @ [x]) xs of
           Some r \<Rightarrow> Some r
         | None \<Rightarrow> map_option ((#) taken) (match_here p (x # xs)))
      else map_option ((#) taken) (match_here p (x # xs)))"
| "repeat_lazy c p taken [] = map_option ((#) taken) (match_here p [])"
| "repeat_lazy c p taken (x # xs) =
     (case match_here p (x # xs) of
        Some r \<Rightarrow> Some (taken # r)
      | None \<Rightarrow> if in_class c x then repeat_lazy c p (taken @ [x]) xs else None)"

text \<open>\<^verbatim>\<open>re.search\<close>: the match at the leftmost position that has one.\<close>

fun re_search :: "item list \<Rightarrow> string \<Rightarrow> string list option" where
  "re_search p [] = match_here p []"
| "re_search p (x # xs) =
     (case match_here p (x # xs) of
        Some r \<Rightarrow> Some r
      | None \<Rightarrow> re_search p xs)"

text \<open>
  The two patterns, \<^verbatim>\<open>\{.*\}\<close> and \<^verbatim>\<open>```json\s*(.*?)\s*```\<close>. \<^verbatim>\<open>group(0)\<close> is the whole
  match; the group \<^verbatim>\<open>(.*?)\<close> is item 8 of the second pattern, after the seven characters
  of the opening and the first \<^verbatim>\<open>\s*\<close>.
\<close>

definition literal :: "string \<Rightarrow> item list" where
  "literal s = map (\<lambda>c. One (Lit c)) s"

definition brace_pattern :: "item list" where
  "brace_pattern = [One (Lit CHR ''{''), Greedy Dot, One (Lit CHR ''}'')]"

definition fence_pattern :: "item list" where
  "fence_pattern = literal ''```json'' @ [Greedy Space, Lazy Dot, Greedy Space] @ literal ''```''"

definition group0 :: "string list \<Rightarrow> string" where
  "group0 r = concat r"

definition segment :: "nat \<Rightarrow> string list \<Rightarrow> string" where
  "segment n r = (case drop n r of g # rest \<Rightarrow> g | [] \<Rightarrow> [])"

definition group1 :: "string list \<Rightarrow> string" where
  "group1 r = segment 8 r"

subsection \<open>The two searches as direct recursions\<close>

text \<open>
  What the matcher does on each of the two patterns, written as recursions on the string;
  they are shown below to give the matcher's result.
\<close>

text \<open>
  \<^verbatim>\<open>re.search(r'\{.*\}', response, re.DOTALL)\<close>. The search tries each start position from
  the left; at a \<^verbatim>\<open>{\<close> the greedy \<^verbatim>\<open>.*\<close> (any character, newlines too) takes as much as
  it can and gives characters back until a \<^verbatim>\<open>}\<close> follows. \<^term>\<open>greedy_upto c s\<close> is the
  text matched by \<^verbatim>\<open>.*c\<close> at the start of \<open>s\<close>.
\<close>

fun greedy_upto :: "char \<Rightarrow> string \<Rightarrow> string option" where
  "greedy_upto c [] = None"
| "greedy_upto c (x # xs) =
     (case greedy_upto c xs of
        Some m \<Rightarrow> Some (x # m)
      | None \<Rightarrow> if x = c then Some [x] else None)"

fun search_braces :: "string \<Rightarrow> string option" where
  "search_braces [] = None"
| "search_braces (x # xs) =
     (if x = CHR ''{'' then
        (case greedy_upto CHR ''}'' xs of
           Some m \<Rightarrow> Some (x # m)
         | None \<Rightarrow> search_braces xs)
      else search_braces xs)"

text \<open>
  \<^verbatim>\<open>re.search(r'```json\s*(.*?)\s*```', response, re.DOTALL)\<close>, of which the source reads
  group 1. \<^term>\<open>ws_fence s\<close>: \<^verbatim>\<open>\s*```\<close> matches at the start of \<open>s\<close>.
  \<^term>\<open>lazy_group s\<close>: the text that the lazy \<^verbatim>\<open>(.*?)\<close> takes when \<^verbatim>\<open>(.*?)\s*```\<close> is matched
  at the start of \<open>s\<close> (the shortest that lets the rest match). \<^term>\<open>after_open s\<close>: group 1
  when \<^verbatim>\<open>\s*(.*?)\s*```\<close> is matched at the start of \<open>s\<close>, the first \<^verbatim>\<open>\s*\<close> being greedy
  and giving whitespace back only when the rest fails.
\<close>

definition fence :: string where
  "fence = ''```''"

definition fence_json :: string where
  "fence_json = ''```json''"

fun ws_fence :: "string \<Rightarrow> bool" where
  "ws_fence [] = False"
| "ws_fence (x # xs) = ((py_isspace x \<and> ws_fence xs) \<or> prefix fence (x # xs))"

fun lazy_group :: "string \<Rightarrow> string option" where
  "lazy_group [] = None"
| "lazy_group (x # xs) =
     (if ws_fence (x # xs) then Some []
      else map_option ((#) x) (lazy_group xs))"

fun after_open :: "string \<Rightarrow> string option" where
  "after_open [] = None"
| "after_open (x # xs) =
     (if py_isspace x then
        (case after_open xs of
           Some g \<Rightarrow> Some g
         | None \<Rightarrow> lazy_group (x # xs))
      else lazy_group (x # xs))"

fun search_fence :: "string \<Rightarrow> string option" where
  "search_fence [] = None"
| "search_fence (x # xs) =
     (if prefix fence_json (x # xs) then
        (case after_open (drop (length fence_json) (x # xs)) of
           Some g \<Rightarrow> Some g
         | None \<Rightarrow> search_fence xs)
      else search_fence xs)"

subsection \<open>Parsing a response\<close>

text \<open>
  \<^verbatim>\<open>json.loads\<close> belongs to the Python library; it is a parameter \<open>loads\<close> of the model:
  \<open>loads s\<close> is the outcome of the call \<^verbatim>\<open>json.loads(s)\<close> on a str, the decoded value or
  the exception raised. On a text that is not JSON that is JSONDecodeError (a subclass
  of ValueError); the decoder also raises RecursionError on a text nested too deeply and
  a plain ValueError on an integer of more digits than the interpreter converts.
\<close>

text \<open>
  \<^verbatim>\<open>AIClient._parse_json_response\<close>. The handler is \<^verbatim>\<open>except json.JSONDecodeError\<close>: any
  other exception of the first \<^verbatim>\<open>json.loads\<close> leaves the function, as does every exception
  raised inside the handler.
\<close>

definition parse_json_response :: "(string \<Rightarrow> error + json) \<Rightarrow> string \<Rightarrow> error + json" where
  "parse_json_response loads response =
    (case loads response of
       Inr j \<Rightarrow> Inr j
     | Inl JSONDecodeError \<Rightarrow>
        (case re_search fence_pattern response of
           Some json_match \<Rightarrow> loads (group1 json_match)
         | None \<Rightarrow>
            (case re_search brace_pattern response of
               Some json_match \<Rightarrow> loads (group0 json_match)
             | None \<Rightarrow> Inl (ValueError ''No valid JSON found in response'')))
     | Inl e \<Rightarrow> Inl e)"

text \<open>
  The specification's reading of the two searches: the contents of the first
  \<^verbatim>\<open>```json\<close> block, and the text from the first \<^verbatim>\<open>{\<close> to the last \<^verbatim>\<open>}\<close>.
  \<^term>\<open>first_index pat s\<close> is the least position at which \<open>pat\<close> occurs in \<open>s\<close>;
  \<^term>\<open>py_strip\<close> removes the whitespace at both ends, as \<^verbatim>\<open>str.strip()\<close> does.
\<close>

definition first_index :: "string \<Rightarrow> string \<Rightarrow> nat option" where
  "first_index pat s = List.find (\<lambda>i. prefix pat (drop i s)) [0..<Suc (length s)]"

definition py_strip :: "string \<Rightarrow> string" where
  "py_strip s = rev (dropWhile py_isspace (rev (dropWhile py_isspace s)))"

definition fenced_contents :: "string \<Rightarrow> string option" where
  "fenced_contents s =
    (case first_index fence_json s of
       None \<Rightarrow> None
     | Some i \<Rightarrow>
        (let rest = drop (i + length fence_json) s
         in case first_index fence rest of
              None \<Rightarrow> None
            | Some j \<Rightarrow> Some (py_strip (take j rest))))"

definition first_to_last_brace :: "string \<Rightarrow> string option" where
  "first_to_last_brace s =
    (let t = dropWhile (\<lambda>c. c \<noteq> CHR ''{'') s;
         u = rev (dropWhile (\<lambda>c. c \<noteq> CHR ''}'') (rev (tl t)))
     in if u = [] then None else Some (CHR ''{'' # u))"

text \<open>
  The function as the specification words it: the whole text is parsed, and whenever
  that fails the contents of the first fenced block are, else the text between the
  braces, else ValueError is raised.
\<close>

definition spec_parse_json_response ::
  "(string \<Rightarrow> error + json) \<Rightarrow> string \<Rightarrow> error + json" where
  "spec_parse_json_response loads response =
    (case loads response of
       Inr j \<Rightarrow> Inr j
     | Inl e \<Rightarrow>
        (case fenced_contents response of
           Some c \<Rightarrow> loads c
         | None \<Rightarrow>
            (case first_to_last_brace response of
               Some m \<Rightarrow> loads m
             | None \<Rightarrow> Inl (ValueError ''No valid JSON found in response''))))"

subsection \<open>Validation and the fallback plans\<close>

text \<open>\<^verbatim>\<open>AIClient._validate_meal_plan\<close> and \<^verbatim>\<open>AIClient._validate_workout_plan\<close>\<close>

definition validate_meal_plan :: "json \<Rightarrow> error + bool" where
  "validate_meal_plan meal_plan = all_keys_in [''daily_calories'', ''days''] meal_plan"

definition validate_workout_plan :: "json \<Rightarrow> error + bool" where
  "validate_workout_plan workout_plan = all_keys_in [''plan_name'', ''days''] workout_plan"

text \<open>\<^verbatim>\<open>AIClient._get_fallback_meal_plan\<close>; the profile is not read.\<close>

definition get_fallback_meal_plan :: "json \<Rightarrow> json" where
  "get_fallback_meal_plan user_profile =
    JObj [
      (''daily_calories'', JInt 1800),
      (''days'', JArr [
        JObj [
          (''day'', JStr ''Monday''),
          (''meals'', JObj [
            (''breakfast'', JObj [
              (''name'', JStr ''Oatmeal with berries''),
              (''calories'', JInt 350),
              (''ingredients'',
                JArr [JStr ''1 cup oatmeal'', JStr ''1/2 cup mixed berries'', JStr ''1 tbsp honey''])]),
            (''lunch'', JObj [
              (''name'', JStr ''Grilled chicken salad''),
              (''calories'', JInt 450),
              (''ingredients'',
                JArr [JStr ''4oz grilled chicken'', JStr ''2 cups mixed greens'', JStr ''1 tbsp olive oil''])]),
            (''dinner'', JObj [
              (''name'', JStr ''Baked salmon with vegetables''),
              (''calories'', JInt 500),
              (''ingredients'',
                JArr [JStr ''5oz salmon fillet'', JStr ''1 cup broccoli'', JStr ''1/2 cup brown rice''])]),
            (''snack'', JObj [
              (''name'', JStr ''Greek yogurt with almonds''),
              (''calories'', JInt 200),
              (''ingredients'', JArr [JStr ''1 cup Greek yogurt'', JStr ''1oz almonds''])])])]])]"

text \<open>\<^verbatim>\<open>AIClient._get_fallback_workout_plan\<close>; the profile is not read.\<close>

definition get_fallback_workout_plan :: "json \<Rightarrow> json" where
  "get_fallback_workout_plan user_profile =
    JObj [
      (''plan_name'', JStr ''Basic Fitness Plan''),
      (''days'', JArr [
        JObj [
          (''day'', JStr ''Monday''),
          (''type'', JStr ''Upper Body''),
          (''duration'', JStr ''30 minutes''),
          (''exercises'', JArr [
            JObj [(''name'', JStr ''Push-ups''), (''sets'', JInt 3), (''reps'', JInt 10)],
            JObj [(''name'', JStr ''Plank''), (''sets'', JInt 3), (''duration'', JStr ''30 seconds'')]])]])]"

subsection \<open>Generating a plan\<close>

text \<open>
  The prompt is built and posted to the configured provider (\<^verbatim>\<open>get_meal_plan_prompt\<close>,
  \<^verbatim>\<open>_call_ai_api\<close>); what comes back depends on the provider and is the parameter
  \<open>api\<close>: \<^term>\<open>Inl e\<close> when either call raises, \<^term>\<open>Inr v\<close> when the provider's reply
  holds the content \<open>v\<close>. The content is a decoded JSON value; \<^verbatim>\<open>json.loads\<close> raises
  TypeError on one that is not a str.
\<close>

definition parse_response_value :: "(string \<Rightarrow> error + json) \<Rightarrow> json \<Rightarrow> error + json" where
  "parse_response_value loads response =
    (case response of
       JStr s \<Rightarrow> parse_json_response loads s
     | _ \<Rightarrow> Inl TypeError)"

text \<open>
  \<^verbatim>\<open>AIClient.generate_meal_plan\<close>. The body of the \<^verbatim>\<open>try\<close> is the chain of cases; each
  \<^term>\<open>Inl e\<close> is an exception caught by \<^verbatim>\<open>except Exception\<close>, whose handler returns the
  fallback plan.
\<close>

definition generate_meal_plan ::
  "(string \<Rightarrow> error + json) \<Rightarrow> error + json \<Rightarrow> json \<Rightarrow> json" where
  "generate_meal_plan loads api user_profile =
    (case api of
       Inl e \<Rightarrow> get_fallback_meal_plan user_profile
     | Inr response \<Rightarrow>
        (case parse_response_value loads response of
           Inl e \<Rightarrow> get_fallback_meal_plan user_profile
         | Inr meal_plan \<Rightarrow>
            (case validate_meal_plan meal_plan of
               Inl e \<Rightarrow> get_fallback_meal_plan user_profile
             | Inr ok \<Rightarrow>
                if ok then meal_plan else get_fallback_meal_plan user_profile)))"

text \<open>\<^verbatim>\<open>AIClient.generate_workout_plan\<close>, of the same shape.\<close>

definition generate_workout_plan ::
  "(string \<Rightarrow> error + json) \<Rightarrow> error + json \<Rightarrow> json \<Rightarrow> json" where
  "generate_workout_plan loads api user_profile =
    (case api of
       Inl e \<Rightarrow> get_fallback_workout_plan user_profile
     | Inr response \<Rightarrow>
        (case parse_response_value loads response of
           Inl e \<Rightarrow> get_fallback_workout_plan user_profile
         | Inr workout_plan \<Rightarrow>
            (case validate_workout_plan workout_plan of
               Inl e \<Rightarrow> get_fallback_workout_plan user_profile
             | Inr ok \<Rightarrow>
                if ok then workout_plan else get_fallback_workout_plan user_profile)))"

text \<open>
  Notions used to state properties of a plan: being a dictionary, having a field, the
  days of a plan, the exercises of a day.
\<close>

fun is_dict :: "json \<Rightarrow> bool" where
  "is_dict (JObj items) = True"
| "is_dict _ = False"

fun has_field :: "string \<Rightarrow> json \<Rightarrow> bool" where
  "has_field k (JObj items) = (k \<in> set (map fst items))"
| "has_field k _ = False"

fun field_list :: "string \<Rightarrow> json \<Rightarrow> json list" where
  "field_list k (JObj items) = (case map_of items k of Some (JArr xs) \<Rightarrow> xs | _ \<Rightarrow> [])"
| "field_list k _ = []"

definition every_exercise :: "(json \<Rightarrow> bool) \<Rightarrow> json \<Rightarrow> bool" where
  "every_exercise P plan =
     list_all (\<lambda>day. list_all P (field_list ''exercises'' day)) (field_list ''days'' plan)"

section \<open>Chat context (apps/chat/models.py, apps/chat/services.py)\<close>

text \<open>
  A row of the \<^verbatim>\<open>ChatContext\<close> table. Times are integers (a count of microseconds);
  a nullable column is an option. The float \<^verbatim>\<open>importance_score\<close> is modelled by the real
  number its decimal notation denotes, so that the literal \<^verbatim>\<open>0.7\<close> of the source is
  \<open>7/10\<close>; the order of two scores is the same on both sides.
\<close>

record chat_context =
  ctx_id :: nat
  ctx_session :: nat
  context_type :: string
  ctx_key :: string
  ctx_value :: json
  importance_score :: real
  last_referenced :: "int option"
  reference_count :: int
  expires_at :: "int option"
  auto_refresh :: bool
  ctx_created_at :: int
  ctx_updated_at :: int

text \<open>
  \<^verbatim>\<open>ChatContext.is_expired\<close>: never for a row without \<^verbatim>\<open>expires_at\<close>, otherwise when the
  current time is past it.
\<close>

definition is_expired :: "int \<Rightarrow> chat_context \<Rightarrow> bool" where
  "is_expired now c = (case expires_at c of None \<Rightarrow> False | Some t \<Rightarrow> now > t)"

text \<open>
  A Python dict with string keys, in insertion order. \<^verbatim>\<open>d[k] = v\<close> is
  \<^term>\<open>AList.update k v d\<close> (the value is replaced in place, a new key goes last);
  \<^verbatim>\<open>d.update(e)\<close> stores the items of \<open>e\<close> one after the other.
\<close>

type_synonym dict = "(string \<times> json) list"


subsection \<open>Preferences read from a message\<close>









subsection \<open>Relevant context\<close>

text \<open>
  The dict of dicts \<^verbatim>\<open>context_data\<close>, and one round of the loop body on it:
  \<^verbatim>\<open>if t not in context_data: context_data[t] = {}\<close>, then
  \<^verbatim>\<open>context_data[t][key] = value\<close>.
\<close>

type_synonym context_data = "(string \<times> dict) list"

definition add_context_item :: "chat_context \<Rightarrow> context_data \<Rightarrow> context_data" where
  "add_context_item item context_data =
    (let context_data =
           (if context_type item \<notin> set (map fst context_data)
            then AList.update (context_type item) [] context_data
            else context_data)
     in AList.map_entry (context_type item)
          (AList.update (ctx_key item) (ctx_value item)) context_data)"

text \<open>
  \<^verbatim>\<open>ChatContext.mark_referenced\<close>: the item read by the query is stamped with a reading
  \<open>now\<close> of the clock, counted and saved to its row (the row with its primary key); the
  save gives \<^verbatim>\<open>updated_at\<close> (an \<^verbatim>\<open>auto_now\<close> column) a reading of its own, \<open>saved\<close>.
\<close>

definition mark_referenced ::
  "int \<Rightarrow> int \<Rightarrow> chat_context \<Rightarrow> chat_context list \<Rightarrow> chat_context list" where
  "mark_referenced now saved item table =
     map (\<lambda>r. if ctx_id r = ctx_id item
              then r\<lparr>last_referenced := Some now,
                     reference_count := reference_count item + 1,
                     ctx_updated_at := saved\<rparr>
              else r) table"

text \<open>
  The query \<^verbatim>\<open>session.context_items.filter(importance_score__gte=0.7)
  .exclude(expires_at__lt=now)\<close>. \<open>table\<close> lists the rows in the order in which the
  database returns them. \<^verbatim>\<open>exclude\<close> on a nullable column drops the rows for which
  the comparison holds and keeps those where the column is null.
\<close>

definition high_importance_context :: "int \<Rightarrow> nat \<Rightarrow> chat_context list \<Rightarrow> chat_context list" where
  "high_importance_context now sid table =
     filter (\<lambda>r. \<not> (case expires_at r of None \<Rightarrow> False | Some t \<Rightarrow> t < now))
       (filter (\<lambda>r. importance_score r \<ge> 7 / 10)
         (filter (\<lambda>r. ctx_session r = sid) table))"

text \<open>
  The loop of \<^verbatim>\<open>get_relevant_context\<close>; \<open>clock i\<close> is the \<open>i\<close>-th reading of
  \<^verbatim>\<open>timezone.now()\<close> during the call (the query takes reading 0, each item the next
  two).
\<close>

fun relevant_loop ::
  "(nat \<Rightarrow> int) \<Rightarrow> nat \<Rightarrow> chat_context list \<Rightarrow> context_data \<Rightarrow> chat_context list
    \<Rightarrow> context_data \<times> chat_context list" where
  "relevant_loop clock i [] context_data table = (context_data, table)"
| "relevant_loop clock i (item # items) context_data table =
     relevant_loop clock (Suc (Suc i)) items
       (add_context_item item context_data)
       (mark_referenced (clock i) (clock (Suc i)) item table)"

text \<open>\<^verbatim>\<open>ChatContextService.get_relevant_context\<close>: the dict returned and the table after.\<close>

definition get_relevant_context ::
  "(nat \<Rightarrow> int) \<Rightarrow> nat \<Rightarrow> chat_context list \<Rightarrow> context_data \<times> chat_context list" where
  "get_relevant_context clock sid table =
     relevant_loop clock 1 (high_importance_context (clock 0) sid table) [] table"

text \<open>Reading \<^verbatim>\<open>context_data[t][k]\<close> where present.\<close>

definition context_lookup :: "context_data \<Rightarrow> string \<Rightarrow> string \<Rightarrow> json option" where
  "context_lookup context_data t k =
     (case map_of context_data t of None \<Rightarrow> None | Some inner \<Rightarrow> map_of inner k)"

section \<open>Chat responses (apps/chat/services.py, \<^verbatim>\<open>core/ai_client.py\<close>)\<close>

text \<open>
  Exceptions are values; a step that may raise returns \<^typ>\<open>error + 'a\<close> and
  \<^term>\<open>bind_err\<close> runs the next step on a result and passes an exception on.
  \<^term>\<open>error_text\<close> stands for \<^verbatim>\<open>str(e)\<close>; where the model does not carry the message of
  an exception its class name stands for it.
\<close>

definition bind_err :: "error + 'a \<Rightarrow> ('a \<Rightarrow> error + 'b) \<Rightarrow> error + 'b" where
  "bind_err m f = (case m of Inl e \<Rightarrow> Inl e | Inr x \<Rightarrow> f x)"

fun error_text :: "error \<Rightarrow> string" where
  "error_text JSONDecodeError = ''JSONDecodeError''"
| "error_text (ValueError msg) = msg"
| "error_text TypeError = ''TypeError''"
| "error_text AttributeError = ''AttributeError''"
| "error_text (NameError name) = ''name '' @ [CHR 0x27] @ name @ [CHR 0x27] @ '' is not defined''"
| "error_text (RecursionError msg) = msg"
| "error_text (OtherError msg) = msg"

text \<open>
  What \<^verbatim>\<open>AIClient.chat_response\<close> can hand to its caller. The function has \<^verbatim>\<open>yield\<close> in
  its body, so it is a generator function: a call runs none of the body and returns a
  generator object. A generator object has no attribute \<^verbatim>\<open>get\<close>; a dict has.
\<close>

datatype py_value = PyDict dict | PyGenerator "string list"

fun py_get :: "py_value \<Rightarrow> string \<Rightarrow> json \<Rightarrow> error + json" where
  "py_get (PyDict d) k dflt = Inr (case map_of d k of Some v \<Rightarrow> v | None \<Rightarrow> dflt)"
| "py_get (PyGenerator chunks) k dflt = Inl AttributeError"

text \<open>
  \<^verbatim>\<open>AIClient.chat_response\<close>. The stream of the provider is a parameter: the chunks it
  delivers and the exception that ends it, if any (also one raised while the prompt is
  built). The generator object holds what iterating it would yield.
\<close>

definition chat_response :: "string list \<times> error option \<Rightarrow> py_value" where
  "chat_response stream =
     PyGenerator (fst stream @
       (case snd stream of
          None \<Rightarrow> []
        | Some e \<Rightarrow>
            [''I apologize, but I'm having trouble responding right now. Please try again later.'']))"

text \<open>\<^verbatim>\<open>ChatService._determine_response_type\<close>\<close>

fun json_lower :: "json \<Rightarrow> error + string" where
  "json_lower (JStr s) = Inr (py_lower s)"
| "json_lower _ = Inl AttributeError"

fun json_get_type :: "json \<Rightarrow> error + json" where
  "json_get_type (JObj d) = Inr (case map_of d ''type'' of Some v \<Rightarrow> v | None \<Rightarrow> JNull)"
| "json_get_type _ = Inl AttributeError"

definition determine_response_type :: "py_value \<Rightarrow> error + string" where
  "determine_response_type ai_response_data =
    bind_err (py_get ai_response_data ''content'' (JStr [])) (\<lambda>c.
    bind_err (json_lower c) (\<lambda>content.
    bind_err (py_get ai_response_data ''structured_data'' (JObj [])) (\<lambda>structured_data.
      if sublist ''meal plan'' content then Inr ''meal_plan''
      else
        bind_err (json_get_type structured_data) (\<lambda>t.
          Inr (if t = JStr ''meal_plan'' then ''meal_plan''
               else if sublist ''workout'' content \<or> t = JStr ''workout_plan'' then ''workout_plan''
               else if sublist ''nutrition'' content \<and> sublist ''analysis'' content
                 then ''nutrition_analysis''
               else if sublist ''progress'' content \<or> sublist ''tracking'' content
                 then ''progress_update''
               else if sublist ''recommend'' content \<or> sublist ''suggest'' content
                 then ''recommendation''
               else ''text'')))))"

text \<open>
  The tables that \<^verbatim>\<open>generate_ai_response\<close> writes. A \<^verbatim>\<open>Message\<close> row keeps the keyword
  arguments of \<^verbatim>\<open>Message.objects.create\<close> as given, with its key and creation time.
\<close>

record chat_session =
  sess_id :: nat
  sess_user :: nat
  sess_created_at :: int
  message_count :: int
  total_tokens_used :: int
  avg_response_time :: real

record message =
  msg_id :: nat
  msg_session :: nat
  msg_fields :: dict
  msg_created_at :: int

record chat_db =
  db_messages :: "message list"
  db_sessions :: "chat_session list"
  db_analytics :: "(string \<times> int) list"

text \<open>
  What the call reads from outside: the outcome of \<^verbatim>\<open>_build_conversation_context\<close> (which
  queries the database), the provider's stream, two readings of the clock, and the key
  and creation time of the row that is created.
\<close>

record response_env =
  env_context :: "error + json"
  env_stream :: "string list \<times> error option"
  env_start_time :: int
  env_end_time :: int
  env_new_id :: nat
  env_created_at :: int

text \<open>\<^verbatim>\<open>int(x)\<close> on a float truncates towards zero.\<close>

definition py_int :: "real \<Rightarrow> int" where
  "py_int x = (if x \<ge> 0 then \<lfloor>x\<rfloor> else \<lceil>x\<rceil>)"

fun json_number :: "json \<Rightarrow> error + int" where
  "json_number (JInt n) = Inr n"
| "json_number (JBool b) = Inr (if b then 1 else 0)"
| "json_number _ = Inl TypeError"

text \<open>
  The keyword arguments of the first \<^verbatim>\<open>Message.objects.create\<close>, evaluated in the order
  in which they are written; the first to raise ends the evaluation.
\<close>

definition ai_message_fields ::
  "response_env \<Rightarrow> message \<Rightarrow> json \<Rightarrow> py_value \<Rightarrow> error + dict" where
  "ai_message_fields env user_message context ai_response_data =
    (let response_time =
           real_of_int (env_end_time env - env_start_time env) / 1000
     in
      bind_err (py_get ai_response_data ''content'' (JStr [])) (\<lambda>content.
      bind_err (determine_response_type ai_response_data) (\<lambda>message_type.
      bind_err (py_get ai_response_data ''model'' (JStr ''unknown'')) (\<lambda>ai_model.
      bind_err (py_get ai_response_data ''prompt_tokens'' (JInt 0)) (\<lambda>prompt_tokens.
      bind_err (py_get ai_response_data ''completion_tokens'' (JInt 0)) (\<lambda>completion_tokens.
      bind_err (py_get ai_response_data ''total_tokens'' (JInt 0)) (\<lambda>total_tokens.
      bind_err (py_get ai_response_data ''confidence_score'' JNull) (\<lambda>confidence_score.
      bind_err (py_get ai_response_data ''structured_data'' (JObj [])) (\<lambda>structured_data.
        Inr [(''role'', JStr ''assistant''),
             (''content'', content),
             (''message_type'', JStr message_type),
             (''ai_model'', ai_model),
             (''prompt_tokens'', prompt_tokens),
             (''completion_tokens'', completion_tokens),
             (''total_tokens'', total_tokens),
             (''confidence_score'', confidence_score),
             (''response_time_ms'', JInt (py_int response_time)),
             (''structured_data'', structured_data),
             (''context_data'', context),
             (''parent_message'', JInt (int (msg_id user_message)))])))))))))"

text \<open>
  \<^verbatim>\<open>ChatAnalyticsService.track_response_generated\<close>: a row for the response time and,
  when tokens were used, one for them.
\<close>

definition track_response_generated :: "int \<Rightarrow> int \<Rightarrow> (string \<times> int) list \<Rightarrow> (string \<times> int) list" where
  "track_response_generated response_time_ms tokens analytics =
    (let analytics = analytics @ [(''response_time'', response_time_ms)]
     in if tokens > 0 then analytics @ [(''tokens_used'', tokens)] else analytics)"

text \<open>
  The body of the \<^verbatim>\<open>try\<close> of \<^verbatim>\<open>ChatService.generate_ai_response\<close>: the database as the
  body leaves it, and the dict it returns or the exception it raises.
\<close>

definition ai_response_body ::
  "response_env \<Rightarrow> chat_session \<Rightarrow> message \<Rightarrow> chat_db \<Rightarrow> chat_db \<times> (error + dict)" where
  "ai_response_body env session user_message db =
    (case env_context env of
       Inl e \<Rightarrow> (db, Inl e)
     | Inr context \<Rightarrow>
        (let ai_response_data = chat_response (env_stream env);
             response_time = real_of_int (env_end_time env - env_start_time env) / 1000
         in case ai_message_fields env user_message context ai_response_data of
              Inl e \<Rightarrow> (db, Inl e)
            | Inr kwargs \<Rightarrow>
               (let ai_message =
                      \<lparr>msg_id = env_new_id env, msg_session = sess_id session,
                       msg_fields = kwargs, msg_created_at = env_created_at env\<rparr>;
                    db = db\<lparr>db_messages := db_messages db @ [ai_message]\<rparr>
                in case json_number (dict_get (map_of kwargs) ''total_tokens'' (JInt 0)) of
                     Inl e \<Rightarrow> (db, Inl e)
                   | Inr tokens \<Rightarrow>
                      if message_count session = 0
                      then (db, Inl (OtherError ''ZeroDivisionError''))
                      else
                        (let session =
                               session\<lparr>total_tokens_used := total_tokens_used session + tokens,
                                 avg_response_time :=
                                   (avg_response_time session
                                      * real_of_int (message_count session - 1) + response_time)
                                   / real_of_int (message_count session)\<rparr>;
                             db = db\<lparr>db_sessions :=
                                    map (\<lambda>s. if sess_id s = sess_id session then session else s)
                                      (db_sessions db)\<rparr>;
                             db = db\<lparr>db_analytics :=
                                    track_response_generated (py_int response_time) tokens
                                      (db_analytics db)\<rparr>
                         in (db,
                             Inr [(''message_id'', JInt (int (msg_id ai_message))),
                                  (''content'', dict_get (map_of kwargs) ''content'' JNull),
                                  (''message_type'', dict_get (map_of kwargs) ''message_type'' JNull),
                                  (''structured_data'',
                                     dict_get (map_of kwargs) ''structured_data'' JNull),
                                  (''confidence_score'',
                                     dict_get (map_of kwargs) ''confidence_score'' JNull),
                                  (''response_time_ms'',
                                     dict_get (map_of kwargs) ''response_time_ms'' JNull),
                                  (''created_at'', JInt (msg_created_at ai_message))])))))"

definition apology :: string where
  "apology =
     ''I apologize, but I'm having trouble processing your request right now. Please try again.''"

text \<open>
  \<^verbatim>\<open>ChatService.generate_ai_response\<close>: the \<^verbatim>\<open>try\<close> body, and the handler of
  \<^verbatim>\<open>except Exception\<close>, which stores an error message and returns the error response.
\<close>

definition generate_ai_response ::
  "response_env \<Rightarrow> chat_session \<Rightarrow> message \<Rightarrow> chat_db \<Rightarrow> dict \<times> chat_db" where
  "generate_ai_response env session user_message db =
    (case ai_response_body env session user_message db of
       (db, Inr response) \<Rightarrow> (response, db)
     | (db, Inl e) \<Rightarrow>
        (let error_message =
               \<lparr>msg_id = env_new_id env, msg_session = sess_id session,
                msg_fields = [(''role'', JStr ''assistant''),
                              (''content'', JStr apology),
                              (''message_type'', JStr ''error''),
                              (''parent_message'', JInt (int (msg_id user_message)))],
                msg_created_at = env_created_at env\<rparr>
         in ([(''message_id'', JInt (int (msg_id error_message))),
              (''content'', dict_get (map_of (msg_fields error_message)) ''content'' JNull),
              (''message_type'', JStr ''error''),
              (''error'', JStr (error_text e))],
             db\<lparr>db_messages := db_messages db @ [error_message]\<rparr>)))"

section \<open>Chat insights (apps/chat/services.py)\<close>

text \<open>
  The names bound at the top level of \<^verbatim>\<open>apps/chat/services.py\<close>: its imports, the logger
  and its four classes. A name that is not local to a function is looked up here and then
  among the builtins of Python, which are a parameter; a name found in neither raises
  NameError.
\<close>

definition services_globals :: "string list" where
  "services_globals =
    [''json'', ''logging'', ''datetime'', ''timedelta'',
     ''Dict'', ''List'', ''Optional'', ''Generator'', ''Tuple'',
     ''User'', ''transaction'', ''Q'', ''Avg'', ''Sum'', ''Count'', ''timezone'',
     ''AIClient'', ''UserProfile'', ''MealPlan'', ''NutritionLog'', ''WorkoutPlan'', ''Workout'',
     ''ChatSession'', ''Message'', ''ChatContext'', ''ChatTemplate'',
     ''ConversationSummary'', ''ChatAnalytics'',
     ''logger'',
     ''ChatService'', ''ChatContextService'', ''ChatAnalyticsService'',
     ''ConversationSummaryService'']"

definition lookup_global :: "string list \<Rightarrow> string \<Rightarrow> error + unit" where
  "lookup_global builtins name =
     (if name \<in> set services_globals \<or> name \<in> set builtins then Inr ()
      else Inl (NameError name))"

text \<open>
  Reading a message row: its role, the length of its content, the hour and the day of
  the week of its creation (times count microseconds from 1970-01-01, a Thursday, in
  UTC).
\<close>

definition has_role :: "string \<Rightarrow> message \<Rightarrow> bool" where
  "has_role r m = (map_of (msg_fields m) ''role'' = Some (JStr r))"

definition content_length :: "message \<Rightarrow> nat" where
  "content_length m = (case map_of (msg_fields m) ''content'' of Some (JStr s) \<Rightarrow> length s | _ \<Rightarrow> 0)"

definition hour_of :: "int \<Rightarrow> nat" where
  "hour_of t = nat ((t div 3600000000) mod 24)"

definition weekday_of :: "int \<Rightarrow> string" where
  "weekday_of t =
     [''Thursday'', ''Friday'', ''Saturday'', ''Sunday'', ''Monday'', ''Tuesday'', ''Wednesday'']
       ! nat ((t div 86400000000) mod 7)"

text \<open>The text \<^verbatim>\<open>f"{hour:02d}:00"\<close> for an hour below 24.\<close>

definition hour_label :: "nat \<Rightarrow> string" where
  "hour_label hour =
     [char_of (48 + hour div 10), char_of (48 + hour mod 10)] @ '':00''"

text \<open>
  \<^verbatim>\<open>ChatAnalyticsService._analyze_communication_patterns\<close>. Its locals are \<^verbatim>\<open>self\<close>,
  \<^verbatim>\<open>messages\<close>, \<^verbatim>\<open>user_messages\<close>, \<^verbatim>\<open>hourly_distribution\<close>, \<^verbatim>\<open>hour\<close>, \<^verbatim>\<open>count\<close>,
  \<^verbatim>\<open>avg_length\<close>, \<^verbatim>\<open>daily_counts\<close>, \<^verbatim>\<open>message\<close> and \<^verbatim>\<open>day\<close>; the name \<^verbatim>\<open>models\<close> in
  \<^verbatim>\<open>Avg(models.Length('content'))\<close> is therefore looked up among the globals, after the
  loop over the hours and before the aggregate is built. \<^verbatim>\<open>round(x, 1)\<close> on floats is the
  parameter \<open>round1\<close>.
\<close>

definition analyze_communication_patterns ::
  "string list \<Rightarrow> (real \<Rightarrow> real) \<Rightarrow> message list \<Rightarrow> error + json" where
  "analyze_communication_patterns builtins round1 messages =
    (let user_messages = filter (has_role ''user'') messages;
         hourly_distribution =
           map (\<lambda>hour. (hour_label hour,
                         JInt (int (length (filter (\<lambda>m. hour_of (msg_created_at m) = hour)
                                             user_messages)))))
             [0..<24]
     in bind_err (lookup_global builtins ''models'') (\<lambda>models.
          (let avg_length =
                 (if user_messages = [] then 0
                  else real (sum_list (map content_length user_messages))
                         / real (length user_messages));
               daily_counts =
                 foldl (\<lambda>counts m.
                          AList.update (weekday_of (msg_created_at m))
                            (dict_get (map_of counts) (weekday_of (msg_created_at m)) 0 + 1) counts)
                   [] user_messages
           in Inr (JObj
                [(''hourly_distribution'', JObj hourly_distribution),
                 (''average_message_length'', JFloat (round1 avg_length)),
                 (''most_active_days'',
                    JObj (map (\<lambda>(day, n). (day, JInt n))
                           (rev (sort_key snd (rev daily_counts))))),
                 (''total_messages'', JInt (int (length user_messages)))]))))"

text \<open>
  \<^verbatim>\<open>timezone.now() - timedelta(days=period_days)\<close>: \<^verbatim>\<open>timedelta\<close> takes at most
  999999999 days either way, and the difference must be a date of the years 1 to 9999.
\<close>

definition start_date_of :: "int \<Rightarrow> int \<Rightarrow> error + int" where
  "start_date_of now period_days =
    (if \<bar>period_days\<bar> > 999999999 then Inl (OtherError ''OverflowError'')
     else
       (let start_date = now - period_days * 86400000000
        in if start_date < - 62135596800000000 \<or> start_date > 253402300799999999
           then Inl (OtherError ''OverflowError'')
           else Inr start_date))"

text \<open>
  The five other analyses query the database through the ORM; what each returns or
  raises is a parameter.
\<close>

record other_analyses =
  preferred_topics :: "error + json"
  engagement_trends :: "error + json"
  ai_performance :: "error + json"
  personalization_opportunities :: "error + json"
  recommended_features :: "error + json"

text \<open>
  \<^verbatim>\<open>ChatAnalyticsService.generate_user_insights\<close>. The values of the dict \<^verbatim>\<open>insights\<close> are
  evaluated in the order in which they are written.
\<close>

definition generate_user_insights ::
  "string list \<Rightarrow> (real \<Rightarrow> real) \<Rightarrow> other_analyses \<Rightarrow> int \<Rightarrow> chat_db \<Rightarrow> nat \<Rightarrow> int \<Rightarrow> dict" where
  "generate_user_insights builtins round1 analyses now db user period_days =
    (case
       bind_err (start_date_of now period_days) (\<lambda>start_date.
         (let sessions =
                filter (\<lambda>s. sess_user s = user \<and> sess_created_at s \<ge> start_date)
                  (db_sessions db);
              messages =
                filter (\<lambda>m. list_ex (\<lambda>s. sess_id s = msg_session m \<and> sess_user s = user)
                               (db_sessions db)
                           \<and> msg_created_at m \<ge> start_date)
                  (db_messages db)
          in
           bind_err (analyze_communication_patterns builtins round1 messages) (\<lambda>patterns.
           bind_err (preferred_topics analyses) (\<lambda>topics.
           bind_err (engagement_trends analyses) (\<lambda>trends.
           bind_err (ai_performance analyses) (\<lambda>performance.
           bind_err (personalization_opportunities analyses) (\<lambda>opportunities.
           bind_err (recommended_features analyses) (\<lambda>features.
             Inr [(''communication_patterns'', patterns),
                  (''preferred_topics'', topics),
                  (''engagement_trends'', trends),
                  (''ai_performance'', performance),
                  (''personalization_opportunities'', opportunities),
                  (''recommended_features'', features)]))))))))
     of
       Inr insights \<Rightarrow>
         [(''success'', JBool True), (''insights'', JObj insights),
          (''period_days'', JInt period_days)]
     | Inl e \<Rightarrow>
         [(''success'', JBool False), (''error'', JStr (error_text e))])"

section \<open>Grocery list (apps/nutrition/services.py)\<close>

text \<open>
  Quantities and costs are Python floats (\<^verbatim>\<open>MealFood.quantity\<close> is a \<^verbatim>\<open>FloatField\<close>).
  The model does not fix their arithmetic: the type \<open>'f\<close> of the floats and the
  operations that the source applies to them are parameters, so that nothing is assumed
  of them (float addition rounds and is not associative). \<^term>\<open>f_lit ops x\<close> is the float
  for a number \<open>x\<close> written in the source, \<^term>\<open>f_round2 ops x\<close> is \<^verbatim>\<open>round(x, 2)\<close>.
\<close>

record 'f float_ops =
  f_add :: "'f \<Rightarrow> 'f \<Rightarrow> 'f"
  f_mul :: "'f \<Rightarrow> 'f \<Rightarrow> 'f"
  f_div :: "'f \<Rightarrow> 'f \<Rightarrow> 'f"
  f_round2 :: "'f \<Rightarrow> 'f"
  f_lit :: "real \<Rightarrow> 'f"

text \<open>
  The rows read by \<^verbatim>\<open>generate_grocery_list\<close>: a \<^verbatim>\<open>MealFood\<close> with its \<^verbatim>\<open>FoodItem\<close>; a
  meal is the list \<^verbatim>\<open>meal.foods.all()\<close>.
\<close>

record food_item =
  fi_name :: string
  fi_category :: string

record 'f meal_food =
  mf_food_item :: food_item
  mf_quantity :: 'f
  mf_unit :: string

type_synonym 'f meal = "'f meal_food list"

text \<open>An entry of \<^verbatim>\<open>grocery_items\<close>, and the dict that is returned.\<close>

record 'f grocery_item =
  gi_name :: string
  gi_quantity :: 'f
  gi_unit :: string
  gi_category :: string
  gi_estimated_cost :: 'f

record 'f grocery_list =
  gl_items :: "'f grocery_item list"
  gl_categories :: "(string \<times> 'f grocery_item list) list"
  gl_total_items :: nat
  gl_estimated_cost :: 'f
  gl_shopping_tips :: "string list"

text \<open>\<^verbatim>\<open>MealPlanningService._estimate_item_cost\<close>; the table holds the numbers as written.\<close>

definition cost_per_100g :: "(string \<times> real) list" where
  "cost_per_100g =
    [(''chicken'', 3), (''beef'', 5), (''salmon'', 8), (''rice'', 1 / 2), (''pasta'', 3 / 4),
     (''bread'', 3 / 2), (''milk'', 1), (''eggs'', 5 / 2), (''cheese'', 4), (''yogurt'', 3 / 2),
     (''apple'', 1), (''banana'', 6 / 10), (''broccoli'', 12 / 10), (''spinach'', 2),
     (''olive oil'', 3)]"

definition estimate_item_cost :: "'f float_ops \<Rightarrow> string \<Rightarrow> 'f \<Rightarrow> 'f" where
  "estimate_item_cost ops food_name quantity =
    (case List.find (\<lambda>(item, cost). sublist (py_lower item) (py_lower food_name)) cost_per_100g of
       Some (item, cost) \<Rightarrow>
         f_round2 ops (f_mul ops (f_div ops quantity (f_lit ops 100)) (f_lit ops cost))
     | None \<Rightarrow>
         f_round2 ops (f_mul ops (f_div ops quantity (f_lit ops 100)) (f_lit ops (3 / 2))))"

text \<open>
  \<^verbatim>\<open>MealPlanningService._generate_shopping_tips\<close>; a category maps to the list of its
  entries, of which only the number is read.
\<close>

definition generate_shopping_tips :: "(string \<times> 'a list) list \<Rightarrow> string list" where
  "generate_shopping_tips categories =
    (let tips = [];
         tips = (case map_of categories ''Fruits'' of
                   Some l \<Rightarrow> if length l > 3
                     then tips @ [''Buy fruits at varying ripeness levels to last the whole week'']
                     else tips
                 | None \<Rightarrow> tips);
         tips = (if ''Vegetables'' \<in> set (map fst categories)
                 then tips @ [''Shop for vegetables 2-3 times per week for maximum freshness'']
                 else tips);
         tips = (case map_of categories ''Proteins'' of
                   Some l \<Rightarrow> if length l > 2
                     then tips @ [''Consider buying proteins in bulk and freezing portions'']
                     else tips
                 | None \<Rightarrow> tips);
         tips = tips @ [''Check store flyers for weekly specials on your list items''];
         tips = tips @ [''Bring reusable bags and stick to your list to avoid impulse purchases'']
     in tips)"

text \<open>
  The body of the inner loop on the two dicts. \<^verbatim>\<open>grocery_items\<close> maps a food name to its
  entry; \<^verbatim>\<open>+=\<close> on the quantity of an entry is the float addition. A list of
  \<^verbatim>\<open>categories\<close> holds the very entries of \<^verbatim>\<open>grocery_items\<close> (the same objects); the
  model keeps their names, which are their keys in \<^verbatim>\<open>grocery_items\<close>, and reads the
  entries at the end.
\<close>

definition add_meal_food ::
  "'f float_ops \<Rightarrow> (string \<times> 'f grocery_item) list \<times> (string \<times> string list) list
    \<Rightarrow> 'f meal_food
    \<Rightarrow> (string \<times> 'f grocery_item) list \<times> (string \<times> string list) list" where
  "add_meal_food ops state meal_food =
    (let grocery_items = fst state;
         categories = snd state;
         food_name = fi_name (mf_food_item meal_food);
         quantity = mf_quantity meal_food;
         category = (if fi_category (mf_food_item meal_food) = [] then ''Other''
                     else fi_category (mf_food_item meal_food));
         grocery_items =
           (if food_name \<in> set (map fst grocery_items)
            then AList.map_entry food_name
                   (\<lambda>entry. entry\<lparr>gi_quantity := f_add ops (gi_quantity entry) quantity\<rparr>)
                   grocery_items
            else AList.update food_name
                   \<lparr>gi_name = food_name, gi_quantity = quantity, gi_unit = mf_unit meal_food,
                    gi_category = category,
                    gi_estimated_cost = estimate_item_cost ops food_name quantity\<rparr>
                   grocery_items);
         categories =
           (if category \<notin> set (map fst categories)
            then AList.update category [] categories
            else categories);
         categories =
           (if food_name \<notin> set (case map_of categories category of Some l \<Rightarrow> l | None \<Rightarrow> [])
            then AList.map_entry category (\<lambda>l. l @ [food_name]) categories
            else categories)
     in (grocery_items, categories))"

text \<open>The two nested loops, from empty dicts.\<close>

definition collect_ingredients ::
  "'f float_ops \<Rightarrow> 'f meal list
    \<Rightarrow> (string \<times> 'f grocery_item) list \<times> (string \<times> string list) list" where
  "collect_ingredients ops meals =
     foldl (\<lambda>state meal. foldl (add_meal_food ops) state meal) ([], []) meals"

text \<open>
  \<^verbatim>\<open>MealPlanningService.generate_grocery_list\<close>. The meals are read from the database:
  \<^term>\<open>Inl e\<close> when a read raises, which the handler turns into the error result (here
  \<^term>\<open>Inl\<close> of the exception). \<^verbatim>\<open>sum\<close> adds the costs to the int 0 from left to right;
  of no costs it is that 0, which \<^verbatim>\<open>round\<close> leaves as it is.
\<close>

definition generate_grocery_list ::
  "'f float_ops \<Rightarrow> error + 'f meal list \<Rightarrow> error + 'f grocery_list" where
  "generate_grocery_list ops db_meals =
    (case db_meals of
       Inl e \<Rightarrow> Inl e
     | Inr meals \<Rightarrow>
        (let state = collect_ingredients ops meals;
             grocery_items = fst state;
             categories = snd state;
             total_items = length grocery_items;
             estimated_total_cost =
               foldl (f_add ops) (f_lit ops 0)
                 (map (\<lambda>(k, entry). gi_estimated_cost entry) grocery_items)
         in Inr \<lparr>gl_items = map snd grocery_items,
                 gl_categories =
                   map (\<lambda>(c, names). (c, List.map_filter (map_of grocery_items) names)) categories,
                 gl_total_items = total_items,
                 gl_estimated_cost =
                   (if grocery_items = [] then f_lit ops 0
                    else f_round2 ops estimated_total_cost),
                 gl_shopping_tips = generate_shopping_tips categories\<rparr>))"

text \<open>
  The specification's words: the food names that occur in the meals of a plan, and the
  sum of a food's quantities over its occurrences. The quantities are floats, and their
  sum is the one that float addition forms over the occurrences in their order: the
  first quantity, to which each later one is added in turn.
\<close>

definition plan_food_names :: "'f meal list \<Rightarrow> string list" where
  "plan_food_names meals = map (\<lambda>mf. fi_name (mf_food_item mf)) (concat meals)"

definition quantities_of :: "string \<Rightarrow> 'f meal_food list \<Rightarrow> 'f list" where
  "quantities_of food_name foods =
     map mf_quantity (filter (\<lambda>mf. fi_name (mf_food_item mf) = food_name) foods)"

fun float_sum :: "'f float_ops \<Rightarrow> 'f list \<Rightarrow> 'f" where
  "float_sum ops [] = f_lit ops 0"
| "float_sum ops (q # qs) = foldl (f_add ops) q qs"

definition total_quantity :: "'f float_ops \<Rightarrow> string \<Rightarrow> 'f meal_food list \<Rightarrow> 'f" where
  "total_quantity ops food_name foods = float_sum ops (quantities_of food_name foods)"

text \<open>
  The invariant of the loops on \<^verbatim>\<open>grocery_items\<close>, after the foods \<open>foods\<close>: one entry
  for each food name met, under its name, holding the sum of its quantities so far.
\<close>

definition grocery_inv ::
  "'f float_ops \<Rightarrow> 'f meal_food list \<Rightarrow> (string \<times> 'f grocery_item) list \<Rightarrow> bool" where
  "grocery_inv ops foods grocery_items \<longleftrightarrow>
     distinct (map fst grocery_items)
     \<and> fst ` set grocery_items = (\<lambda>mf. fi_name (mf_food_item mf)) ` set foods
     \<and> (\<forall>k entry. map_of grocery_items k = Some entry \<longrightarrow>
           gi_name entry = k \<and> gi_quantity entry = total_quantity ops k foods)"

section \<open>Theorems\<close>

subsection \<open>Health score\<close>

lemma dict_get_nutrient: "dict_get n k 0 = nutrient n k"
  by (simp add: dict_get_def nutrient_def split: option.splits)

lemma if_add_else: "(if a then s + x else s) = s + (if a then x else (0::int))"
  by simp

lemma if_add_both: "(if a then s + x else s + y) = s + (if a then x else (y::int))"
  by simp

lemma if_sub_else: "(if a then s - x else s) = s - (if a then x else (0::int))"
  by simp

lemma if_sub_both: "(if a then s - x else s - y) = s - (if a then x else (y::int))"
  by simp

lemmas bonus_penalty_defs =
  fiber_bonus_def protein_bonus_def vitamin_c_bonus_def calcium_bonus_def
  sodium_penalty_def sugars_penalty_def fat_penalty_def

lemma health_score_sum:
  "calculate_health_score n = max 0 (min 100 (50 + spec_bonuses n - spec_penalties n))"
  unfolding calculate_health_score_def Let_def dict_get_nutrient spec_bonuses_def
    spec_penalties_def bonus_penalty_defs if_add_else if_add_both if_sub_else if_sub_both
  by (simp only: add.assoc diff_diff_eq)

lemma clamp_score_max_min: "clamp_score s = max 0 (min 100 s)"
  by (simp add: clamp_score_def)

lemma sodium_penalty_mono: "x \<le> y \<Longrightarrow> sodium_penalty x \<le> sodium_penalty y"
  by (simp add: sodium_penalty_def)

lemma sugars_penalty_mono: "x \<le> y \<Longrightarrow> sugars_penalty x \<le> sugars_penalty y"
  by (simp add: sugars_penalty_def)

text \<open>
  C5. For every nutrition-totals mapping the health score is an integer between 0 and 100
  inclusive, and it equals the base 50 plus the threshold bonuses minus the threshold
  penalties, clamped to the range 0..100, a missing nutrient counting as 0.
\<close>

theorem calculate_health_score_spec:
  "0 \<le> calculate_health_score n \<and> calculate_health_score n \<le> 100 \<and>
   calculate_health_score n = clamp_score (50 + spec_bonuses n - spec_penalties n)"
  by (simp add: health_score_sum clamp_score_max_min)

text \<open>
  C6. The health score is anti-monotone in sodium and in sugars: when two mappings agree
  on every nutrient but sodium (respectively sugars), the one with the larger value of
  that nutrient scores no more than the other.
\<close>

theorem calculate_health_score_antimono:
  assumes "k = ''sodium'' \<or> k = ''sugars''"
    and "\<forall>j. j \<noteq> k \<longrightarrow> n j = n' j"
    and "nutrient n k \<le> nutrient n' k"
  shows "calculate_health_score n' \<le> calculate_health_score n"
proof -
  have same: "nutrient n j = nutrient n' j" if "j \<noteq> k" for j
    using assms(2) that by (simp add: nutrient_def)
  have bonus: "spec_bonuses n = spec_bonuses n'"
    using assms(1) by (auto simp add: spec_bonuses_def same)
  have pen: "spec_penalties n \<le> spec_penalties n'"
  proof -
    from assms(1) show ?thesis
    proof
      assume k: "k = ''sodium''"
      then have "sodium_penalty (nutrient n ''sodium'') \<le> sodium_penalty (nutrient n' ''sodium'')"
        using assms(3) by (simp add: sodium_penalty_mono)
      then show ?thesis
        by (simp add: spec_penalties_def same k)
    next
      assume k: "k = ''sugars''"
      then have "sugars_penalty (nutrient n ''sugars'') \<le> sugars_penalty (nutrient n' ''sugars'')"
        using assms(3) by (simp add: sugars_penalty_mono)
      then show ?thesis
        by (simp add: spec_penalties_def same k)
    qed
  qed
  show ?thesis
    unfolding health_score_sum using bonus pen by simp
qed

theorem calculate_health_score_antimono_witness:
  "calculate_health_score [''fiber'' \<mapsto> 30, ''sodium'' \<mapsto> 2400]
     \<le> calculate_health_score [''fiber'' \<mapsto> 30, ''sodium'' \<mapsto> 1000]
   \<and> calculate_health_score [''fiber'' \<mapsto> 30, ''sodium'' \<mapsto> 2400] = 45
   \<and> calculate_health_score [''fiber'' \<mapsto> 30, ''sodium'' \<mapsto> 1000] = 65"
proof -
  have "calculate_health_score [''fiber'' \<mapsto> 30, ''sodium'' \<mapsto> 2400]
     \<le> calculate_health_score [''fiber'' \<mapsto> 30, ''sodium'' \<mapsto> 1000]"
    by (rule calculate_health_score_antimono [where k = "''sodium''"])
      (simp_all add: nutrient_def)
  moreover have "calculate_health_score [''fiber'' \<mapsto> 30, ''sodium'' \<mapsto> 2400] = 45"
    by (simp add: calculate_health_score_def dict_get_def)
  moreover have "calculate_health_score [''fiber'' \<mapsto> 30, ''sodium'' \<mapsto> 1000] = 65"
    by (simp add: calculate_health_score_def dict_get_def)
  ultimately show ?thesis by simp
qed

subsection \<open>Parsing the AI response\<close>

lemma find_map: "List.find P (map f xs) = map_option f (List.find (P \<circ> f) xs)"
  by (induction xs) auto

lemma first_index_Nil: "first_index pat [] = (if pat = [] then Some 0 else None)"
  by (simp add: first_index_def)

lemma first_index_Cons:
  "first_index pat (x # xs) =
     (if prefix pat (x # xs) then Some 0 else map_option Suc (first_index pat xs))"
proof -
  have "[0..<Suc (Suc (length xs))] = 0 # map Suc [0..<Suc (length xs)]"
    by (simp add: map_Suc_upt upt_conv_Cons del: upt_Suc)
  then show ?thesis
    by (simp add: first_index_def find_map comp_def del: upt_Suc)
qed


lemma first_index_SomeD:
  assumes "first_index pat s = Some j"
  shows "prefix pat (drop j s)" and "j \<le> length s"
  using assms by (auto simp: first_index_def find_Some_iff simp del: upt_Suc)

lemma first_index_NoneD:
  assumes "first_index pat s = None" and "k \<le> length s"
  shows "\<not> prefix pat (drop k s)"
  using assms by (auto simp: first_index_def find_None_iff simp del: upt_Suc)

lemma backtick_not_space: "\<not> py_isspace CHR ''`''"
  by (simp add: py_isspace_def)

lemma fence_not_Nil: "fence \<noteq> []"
  by (simp add: fence_def)

lemma prefix_fence_hd: "prefix fence (x # xs) \<Longrightarrow> x = CHR ''`''"
  by (simp add: fence_def)

lemma prefix_fence_not_space: "prefix fence (x # xs) \<Longrightarrow> \<not> py_isspace x"
  using prefix_fence_hd backtick_not_space by blast

lemma greedy_upto_last:
  "greedy_upto c s =
     (if c \<in> set s then Some (rev (dropWhile (\<lambda>x. x \<noteq> c) (rev s))) else None)"
proof (induction s)
  case Nil
  show ?case by simp
next
  case (Cons x xs)
  show ?case
  proof (cases "c \<in> set xs")
    case True
    then have "dropWhile (\<lambda>x. x \<noteq> c) (rev xs @ [x]) = dropWhile (\<lambda>x. x \<noteq> c) (rev xs) @ [x]"
      by (intro dropWhile_append1[where x = c]) auto
    with True Cons show ?thesis by simp
  next
    case False
    then have "dropWhile (\<lambda>x. x \<noteq> c) (rev xs @ [x]) = dropWhile (\<lambda>x. x \<noteq> c) [x]"
      by (intro dropWhile_append2) auto
    with False Cons show ?thesis by auto
  qed
qed

lemma first_to_last_brace_None:
  assumes "CHR ''}'' \<notin> set s"
  shows "first_to_last_brace s = None"
proof -
  have "set (tl (dropWhile (\<lambda>c. c \<noteq> CHR ''{'') s)) \<subseteq> set s"
  proof
    fix y assume "y \<in> set (tl (dropWhile (\<lambda>c. c \<noteq> CHR ''{'') s))"
    then have "y \<in> set (dropWhile (\<lambda>c. c \<noteq> CHR ''{'') s)"
      by (cases "dropWhile (\<lambda>c. c \<noteq> CHR ''{'') s") auto
    then show "y \<in> set s" by (rule set_dropWhileD)
  qed
  then have "\<forall>x \<in> set (rev (tl (dropWhile (\<lambda>c. c \<noteq> CHR ''{'') s))). x \<noteq> CHR ''}''"
    using assms by auto
  then show ?thesis
    by (simp add: first_to_last_brace_def Let_def)
qed

lemma search_braces_spec: "search_braces s = first_to_last_brace s"
proof (induction s)
  case Nil
  show ?case by (simp add: first_to_last_brace_def)
next
  case (Cons x xs)
  show ?case
  proof (cases "x = CHR ''{''")
    case False
    then have "first_to_last_brace (x # xs) = first_to_last_brace xs"
      by (simp add: first_to_last_brace_def)
    with False Cons show ?thesis by simp
  next
    case True
    show ?thesis
    proof (cases "CHR ''}'' \<in> set xs")
      case False
      then have "first_to_last_brace (x # xs) = None"
        by (intro first_to_last_brace_None) (simp add: True)
      moreover have "search_braces (x # xs) = search_braces xs"
        using True False by (simp add: greedy_upto_last)
      moreover have "first_to_last_brace xs = None"
        using False by (rule first_to_last_brace_None)
      ultimately show ?thesis using Cons by simp
    next
      case in_xs: True
      then have "dropWhile (\<lambda>c. c \<noteq> CHR ''}'') (rev xs) \<noteq> []"
        by auto
      then show ?thesis
        using True in_xs by (simp add: greedy_upto_last first_to_last_brace_def)
    qed
  qed
qed

lemma ws_fence_dropWhile: "ws_fence s \<longleftrightarrow> prefix fence (dropWhile py_isspace s)"
proof (induction s)
  case Nil
  show ?case by (simp add: fence_not_Nil)
next
  case (Cons x xs)
  show ?case
  proof (cases "py_isspace x")
    case True
    then have "\<not> prefix fence (x # xs)"
      using prefix_fence_not_space by blast
    with True Cons show ?thesis by simp
  next
    case False
    then show ?thesis by simp
  qed
qed

lemma first_index_fence_spaces:
  assumes "\<forall>c \<in> set ws. py_isspace c"
  shows "first_index fence (ws @ t) = map_option ((+) (length ws)) (first_index fence t)"
  using assms
proof (induction ws)
  case Nil
  show ?case by (simp add: option.map_ident)
next
  case (Cons w ws)
  then have "\<not> prefix fence (w # ws @ t)"
    using prefix_fence_not_space by auto
  with Cons show ?case
    by (simp add: first_index_Cons option.map_comp comp_def)
qed

lemma first_index_prefix: "prefix pat s \<Longrightarrow> first_index pat s = Some 0"
  by (cases s) (simp_all add: first_index_Nil first_index_Cons)

lemma strip_right_spaces:
  "\<forall>c \<in> set ws. py_isspace c \<Longrightarrow> dropWhile py_isspace (rev ws) = []"
  by simp

lemma lazy_group_spec:
  "lazy_group s =
     (case first_index fence s of
        None \<Rightarrow> None
      | Some j \<Rightarrow> Some (rev (dropWhile py_isspace (rev (take j s)))))"
proof (induction s)
  case Nil
  show ?case by (simp add: first_index_Nil fence_not_Nil)
next
  case (Cons x xs)
  let ?s = "x # xs"
  show ?case
  proof (cases "ws_fence ?s")
    case True
    let ?ws = "takeWhile py_isspace ?s"
    have pre: "prefix fence (dropWhile py_isspace ?s)"
      using True by (simp only: ws_fence_dropWhile)
    have sp: "\<forall>c \<in> set ?ws. py_isspace c"
      by (auto dest: set_takeWhileD)
    have "first_index fence (?ws @ dropWhile py_isspace ?s) = Some (length ?ws)"
      by (simp only: first_index_fence_spaces[OF sp] first_index_prefix[OF pre]) simp
    then have idx: "first_index fence ?s = Some (length ?ws)"
      by (simp only: takeWhile_dropWhile_id)
    have tk: "take (length ?ws) ?s = ?ws"
      by (rule takeWhile_eq_take[symmetric])
    have "rev (dropWhile py_isspace (rev ?ws)) = []"
      by (simp only: strip_right_spaces[OF sp] rev.simps)
    then have "rev (dropWhile py_isspace (rev (take (length ?ws) ?s))) = []"
      by (simp only: tk)
    moreover have "lazy_group ?s = Some []"
      using True by (simp del: ws_fence.simps)
    ultimately show ?thesis
      by (simp only: idx option.case)
  next
    case False
    then have np: "\<not> prefix fence ?s"
      by auto
    show ?thesis
    proof (cases "first_index fence xs")
      case None
      with False np Cons show ?thesis by (simp add: first_index_Cons)
    next
      case (Some j)
      have "dropWhile py_isspace (rev (take j xs) @ [x]) = dropWhile py_isspace (rev (take j xs)) @ [x]"
      proof (cases "\<forall>c \<in> set (take j xs). py_isspace c")
        case all: True
        have "\<not> py_isspace x"
        proof
          assume x: "py_isspace x"
          have "dropWhile py_isspace ?s = dropWhile py_isspace (take j xs @ drop j xs)"
            using x by simp
          also have "\<dots> = dropWhile py_isspace (drop j xs)"
            using all by (simp only: dropWhile_append2) 
          finally have "dropWhile py_isspace ?s = dropWhile py_isspace (drop j xs)" .
          moreover have pj: "prefix fence (drop j xs)"
            using Some by (rule first_index_SomeD)
          moreover have "dropWhile py_isspace (drop j xs) = drop j xs"
            using pj prefix_fence_not_space by (cases "drop j xs") (auto simp: fence_not_Nil)
          ultimately have "ws_fence ?s"
            by (simp only: ws_fence_dropWhile)
          with False show False by simp
        qed
        have "dropWhile py_isspace (rev (take j xs) @ [x]) = dropWhile py_isspace [x]"
          using all by (intro dropWhile_append2) simp
        moreover have "dropWhile py_isspace (rev (take j xs)) = []"
          using all by (intro strip_right_spaces)
        ultimately show ?thesis
          using \<open>\<not> py_isspace x\<close> by simp
      next
        case False
        then show ?thesis by (auto intro: dropWhile_append1)
      qed
      with Some False np Cons show ?thesis
        by (simp add: first_index_Cons)
    qed
  qed
qed

lemma py_strip_space_Cons: "py_isspace x \<Longrightarrow> py_strip (x # s) = py_strip s"
  by (simp add: py_strip_def)

lemma py_strip_nonspace_Cons:
  "\<not> py_isspace x \<Longrightarrow> py_strip (x # s) = rev (dropWhile py_isspace (rev (x # s)))"
  by (simp add: py_strip_def)

lemma after_open_spec:
  "after_open s =
     (case first_index fence s of
        None \<Rightarrow> None
      | Some j \<Rightarrow> Some (py_strip (take j s)))"
proof (induction s)
  case Nil
  show ?case by (simp add: first_index_Nil fence_not_Nil)
next
  case (Cons x xs)
  show ?case
  proof (cases "py_isspace x")
    case True
    then have np: "\<not> prefix fence (x # xs)"
      using prefix_fence_not_space by blast
    show ?thesis
    proof (cases "first_index fence xs")
      case None
      with True np Cons show ?thesis
        by (simp add: lazy_group_spec first_index_Cons)
    next
      case (Some j)
      with True np Cons show ?thesis
        by (simp add: first_index_Cons py_strip_space_Cons)
    qed
  next
    case False
    show ?thesis
    proof (cases "first_index fence (x # xs)")
      case None
      with False show ?thesis by (simp add: lazy_group_spec)
    next
      case (Some j)
      show ?thesis
      proof (cases j)
        case 0
        with False Some show ?thesis
          by (simp add: lazy_group_spec py_strip_def)
      next
        case (Suc k)
        with False Some show ?thesis
          by (simp add: lazy_group_spec py_strip_nonspace_Cons)
      qed
    qed
  qed
qed

lemma fence_json_not_Nil: "fence_json \<noteq> []"
  by (simp add: fence_json_def)

lemma length_fence_json: "length fence_json = 7"
  by (simp add: fence_json_def)

lemma first_index_fence_later:
  assumes "prefix fence (drop k s)"
  shows "first_index fence s \<noteq> None"
proof
  assume none: "first_index fence s = None"
  have "k \<le> length s"
    using assms fence_not_Nil by (cases "k \<le> length s") auto
  with none assms show False
    by (auto dest: first_index_NoneD)
qed

lemma fenced_contents_None:
  assumes "first_index fence (drop 7 (x # xs)) = None"
  shows "fenced_contents xs = None"
proof (rule ccontr)
  assume "fenced_contents xs \<noteq> None"
  then obtain i j where "first_index fence (drop (i + 7) xs) = Some j"
    by (auto simp: fenced_contents_def Let_def length_fence_json split: option.splits)
  then have "prefix fence (drop j (drop (i + 7) xs))"
    by (rule first_index_SomeD)
  moreover have "drop j (drop (i + 7) xs) = drop (Suc (j + i)) (drop 7 (x # xs))"
    by (simp add: ac_simps)
  ultimately have "prefix fence (drop (Suc (j + i)) (drop 7 (x # xs)))"
    by simp
  then have "first_index fence (drop 7 (x # xs)) \<noteq> None"
    by (rule first_index_fence_later)
  with assms show False by simp
qed

lemma search_fence_spec: "search_fence s = fenced_contents s"
proof (induction s)
  case Nil
  show ?case
    by (simp add: fenced_contents_def first_index_Nil fence_json_not_Nil)
next
  case (Cons x xs)
  show ?case
  proof (cases "prefix fence_json (x # xs)")
    case False
    then have "fenced_contents (x # xs) = fenced_contents xs"
      by (simp add: fenced_contents_def first_index_Cons split: option.splits)
    with False Cons show ?thesis by simp
  next
    case True
    then have idx: "first_index fence_json (x # xs) = Some 0"
      by (rule first_index_prefix)
    show ?thesis
    proof (cases "first_index fence (drop 7 (x # xs))")
      case None
      then have "fenced_contents xs = None"
        by (rule fenced_contents_None)
      moreover have "fenced_contents (x # xs) = None"
        using None idx by (simp add: fenced_contents_def length_fence_json)
      moreover have "search_fence (x # xs) = search_fence xs"
        using True None by (simp add: after_open_spec length_fence_json)
      ultimately show ?thesis using Cons by simp
    next
      case (Some j)
      have "fenced_contents (x # xs) = Some (py_strip (take j (drop 7 (x # xs))))"
        using Some idx by (simp add: fenced_contents_def length_fence_json)
      moreover have "search_fence (x # xs) = Some (py_strip (take j (drop 7 (x # xs))))"
        using True Some by (simp add: after_open_spec length_fence_json)
      ultimately show ?thesis by simp
    qed
  qed
qed

lemma repeat_greedy_dot_upto:
  "map_option concat (repeat_greedy Dot [One (Lit c)] taken s)
     = map_option ((@) taken) (greedy_upto c s)"
proof (induction s arbitrary: taken)
  case Nil
  show ?case by simp
next
  case (Cons x xs)
  show ?case
  proof (cases "greedy_upto c xs")
    case None
    then have "repeat_greedy Dot [One (Lit c)] (taken @ [x]) xs = None"
      using Cons[of "taken @ [x]"] by simp
    with None show ?thesis by (cases xs) auto
  next
    case (Some m)
    then obtain r where r: "repeat_greedy Dot [One (Lit c)] (taken @ [x]) xs = Some r"
      and c: "concat r = (taken @ [x]) @ m"
      using Cons[of "taken @ [x]"] by auto
    with Some show ?thesis by simp
  qed
qed

lemma re_search_brace_pattern:
  "map_option group0 (re_search brace_pattern s) = search_braces s"
proof (induction s)
  case Nil
  show ?case by (simp add: brace_pattern_def)
next
  case (Cons x xs)
  show ?case
  proof (cases "x = CHR ''{''")
    case False
    with Cons show ?thesis by (simp add: brace_pattern_def)
  next
    case True
    show ?thesis
    proof (cases "greedy_upto CHR ''}'' xs")
      case None
      then have "repeat_greedy Dot [One (Lit CHR ''}'')] [] xs = None"
        using repeat_greedy_dot_upto[of "CHR ''}''" "[]" xs] by simp
      with None True Cons show ?thesis by (simp add: brace_pattern_def)
    next
      case (Some m)
      then obtain r where "repeat_greedy Dot [One (Lit CHR ''}'')] [] xs = Some r"
        and "concat r = m"
        using repeat_greedy_dot_upto[of "CHR ''}''" "[]" xs] by auto
      with Some True show ?thesis by (simp add: brace_pattern_def group0_def)
    qed
  qed
qed

lemma match_here_literal:
  "match_here (literal lit @ p) s =
     (if prefix lit s
      then map_option ((@) (map (\<lambda>c. [c]) lit)) (match_here p (drop (length lit) s))
      else None)"
proof (induction lit arbitrary: s)
  case Nil
  have "map_option ((@) []) (match_here p s) = match_here p s"
    by (cases "match_here p s") simp_all
  then show ?case by (simp add: literal_def)
next
  case (Cons c lit)
  show ?case
  proof (cases s)
    case Nil
    then show ?thesis by (simp add: literal_def)
  next
    case (Cons x xs)
    then show ?thesis
      using Cons.IH[of xs]
      by (auto simp: literal_def option.map_comp comp_def)
  qed
qed

lemma match_here_fence_end: "match_here (literal fence) s \<noteq> None \<longleftrightarrow> prefix fence s"
  using match_here_literal[of fence "[]" s] by simp

lemma repeat_greedy_space_fence:
  "repeat_greedy Space (literal fence) taken s \<noteq> None \<longleftrightarrow> ws_fence s"
proof (induction s arbitrary: taken)
  case Nil
  have "\<not> prefix fence []" by (simp add: fence_def)
  then have "match_here (literal fence) [] = None"
    using match_here_fence_end[of "[]"] by blast
  then show ?case by simp
next
  case (Cons x xs)
  show ?case
    using Cons[of "taken @ [x]"] match_here_fence_end[of "x # xs"]
    by (auto split: option.splits)
qed

lemma segment_simps:
  "segment 0 (g # r) = g" "segment (Suc n) (g # r) = segment n r"
  by (simp_all add: segment_def)

lemma repeat_lazy_group:
  "map_option (segment 0) (repeat_lazy Dot (Greedy Space # literal fence) taken s)
     = map_option ((@) taken) (lazy_group s)"
proof (induction s arbitrary: taken)
  case Nil
  have "repeat_greedy Space (literal fence) [] [] = None"
    using repeat_greedy_space_fence[of "[]" "[]"] by simp
  then show ?case by simp
next
  case (Cons x xs)
  let ?P = "Greedy Space # literal fence"
  have step: "repeat_lazy Dot ?P taken (x # xs) =
      (case repeat_greedy Space (literal fence) [] (x # xs) of
         Some r \<Rightarrow> Some (taken # r)
       | None \<Rightarrow> repeat_lazy Dot ?P (taken @ [x]) xs)"
    by simp
  have lg: "lazy_group (x # xs) =
      (if ws_fence (x # xs) then Some [] else map_option ((#) x) (lazy_group xs))"
    by simp
  show ?case
  proof (cases "ws_fence (x # xs)")
    case True
    then obtain r where "repeat_greedy Space (literal fence) [] (x # xs) = Some r"
      using repeat_greedy_space_fence[of "[]" "x # xs"] by blast
    then show ?thesis
      unfolding step lg using True by (simp only: segment_simps option.simps if_True append_Nil2)
  next
    case False
    then have "repeat_greedy Space (literal fence) [] (x # xs) = None"
      using repeat_greedy_space_fence[of "[]" "x # xs"] by blast
    moreover have "map_option ((@) (taken @ [x])) (lazy_group xs)
        = map_option ((@) taken) (map_option ((#) x) (lazy_group xs))"
      by (cases "lazy_group xs") simp_all
    ultimately show ?thesis
      unfolding step lg using False Cons[of "taken @ [x]"]
      by (simp only: option.simps if_False)
  qed
qed

lemma repeat_greedy_after_open:
  "map_option (segment 1)
       (repeat_greedy Space (Lazy Dot # Greedy Space # literal fence) taken s)
     = after_open s"
proof (induction s arbitrary: taken)
  case Nil
  show ?case
    using repeat_lazy_group[of "[]" "[]"] by simp
next
  case (Cons x xs)
  let ?Q = "Lazy Dot # Greedy Space # literal fence"
  have here: "map_option (segment 1) (map_option ((#) taken) (match_here ?Q (x # xs)))
      = lazy_group (x # xs)"
  proof -
    have "map_option (segment 0) (repeat_lazy Dot (Greedy Space # literal fence) [] (x # xs))
        = lazy_group (x # xs)"
      using repeat_lazy_group[of "[]" "x # xs"]
      by (cases "lazy_group (x # xs)") simp_all
    moreover have "match_here ?Q (x # xs)
        = repeat_lazy Dot (Greedy Space # literal fence) [] (x # xs)"
      by simp
    moreover have "map_option (segment 1) (map_option ((#) taken) m) = map_option (segment 0) m"
      for m :: "string list option"
      by (cases m) (simp_all add: segment_simps)
    ultimately show ?thesis by (simp only:)
  qed
  have step: "repeat_greedy Space ?Q taken (x # xs) =
     (if py_isspace x then
        (case repeat_greedy Space ?Q (taken @ [x]) xs of
           Some r \<Rightarrow> Some r
         | None \<Rightarrow> map_option ((#) taken) (match_here ?Q (x # xs)))
      else map_option ((#) taken) (match_here ?Q (x # xs)))"
    by simp
  have ao: "after_open (x # xs) =
     (if py_isspace x then
        (case after_open xs of
           Some g \<Rightarrow> Some g
         | None \<Rightarrow> lazy_group (x # xs))
      else lazy_group (x # xs))"
    by simp
  show ?case
  proof (cases "py_isspace x")
    case False
    then show ?thesis
      unfolding step ao using here by (simp only: if_False)
  next
    case True
    show ?thesis
    proof (cases "after_open xs")
      case None
      then have "repeat_greedy Space ?Q (taken @ [x]) xs = None"
        using Cons[of "taken @ [x]"] by simp
      with None True show ?thesis
        unfolding step ao using here by (simp only: if_True option.simps)
    next
      case (Some g)
      then obtain r where "repeat_greedy Space ?Q (taken @ [x]) xs = Some r"
        and "segment 1 r = g"
        using Cons[of "taken @ [x]"] by auto
      with Some True show ?thesis
        unfolding step ao by (simp only: if_True option.simps)
    qed
  qed
qed

lemma fence_pattern_split:
  "fence_pattern = literal fence_json @ (Greedy Space # Lazy Dot # Greedy Space # literal fence)"
  by (simp add: fence_pattern_def fence_json_def fence_def)

lemma group1_after_literal:
  "group1 (map (\<lambda>c. [c]) fence_json @ r) = segment 1 r"
  by (simp add: group1_def fence_json_def segment_def)

lemma match_here_fence_pattern:
  "map_option group1 (match_here fence_pattern s)
     = (if prefix fence_json s then after_open (drop (length fence_json) s) else None)"
proof (cases "prefix fence_json s")
  case False
  then show ?thesis
    by (simp add: fence_pattern_split match_here_literal)
next
  case True
  have "map_option group1
          (map_option ((@) (map (\<lambda>c. [c]) fence_json))
            (repeat_greedy Space (Lazy Dot # Greedy Space # literal fence) []
              (drop (length fence_json) s)))
        = map_option (segment 1)
            (repeat_greedy Space (Lazy Dot # Greedy Space # literal fence) []
              (drop (length fence_json) s))"
    by (simp add: option.map_comp comp_def group1_after_literal)
  moreover have "match_here (Greedy Space # Lazy Dot # Greedy Space # literal fence) t
      = repeat_greedy Space (Lazy Dot # Greedy Space # literal fence) [] t" for t
    by simp
  ultimately show ?thesis
    using True
    by (simp only: fence_pattern_split match_here_literal repeat_greedy_after_open if_True)
qed

lemma re_search_fence_pattern:
  "map_option group1 (re_search fence_pattern s) = search_fence s"
proof (induction s)
  case Nil
  show ?case
    using match_here_fence_pattern[of "[]"] by (simp add: fence_json_def)
next
  case (Cons x xs)
  show ?case
  proof (cases "match_here fence_pattern (x # xs)")
    case None
    with Cons show ?thesis
      using match_here_fence_pattern[of "x # xs"]
      by (auto split: if_splits option.splits)
  next
    case (Some r)
    with Cons show ?thesis
      using match_here_fence_pattern[of "x # xs"]
      by (auto split: if_splits option.splits)
  qed
qed

lemma first_index_replicate:
  assumes "c \<noteq> x"
  shows "first_index (c # cs) (replicate n x) = None"
proof -
  have "\<not> prefix (c # cs) (replicate m x)" for m
    using assms by (cases m) simp_all
  then show ?thesis
    by (simp add: first_index_def find_None_iff del: upt_Suc)
qed

lemma fenced_contents_replicate:
  "x \<noteq> CHR ''`'' \<Longrightarrow> fenced_contents (replicate n x) = None"
  using first_index_replicate[of "CHR ''`''" x "''``json''" n]
  by (simp add: fenced_contents_def fence_json_def)

lemma first_to_last_brace_replicate:
  "x \<noteq> CHR ''{'' \<Longrightarrow> first_to_last_brace (replicate n x) = None"
  by (simp add: first_to_last_brace_def)

lemma parse_json_response_unhandled:
  assumes "x \<noteq> CHR ''`''" and "x \<noteq> CHR ''{''"
  shows "parse_json_response
           (\<lambda>s. if s = replicate n x then Inl (RecursionError msg) else Inl JSONDecodeError)
           (replicate n x)
         = Inl (RecursionError msg)
       \<and> spec_parse_json_response
           (\<lambda>s. if s = replicate n x then Inl (RecursionError msg) else Inl JSONDecodeError)
           (replicate n x)
         = Inl (ValueError ''No valid JSON found in response'')"
  using assms
  by (simp add: parse_json_response_def spec_parse_json_response_def
      fenced_contents_replicate first_to_last_brace_replicate)

text \<open>
  C1, as claimed: for every input string the fallbacks are tried exactly when the direct
  parse fails, and the function ends in a parsed value or in ValueError. It fails on the
  text of 1000 opening brackets, which is not valid JSON and has neither a fenced block
  nor a brace: \<^verbatim>\<open>json.loads\<close> raises RecursionError on it, which is neither a
  JSONDecodeError nor any other ValueError, so it leaves the function and no fallback is
  tried, where the claim has the ValueError of a text without JSON.
\<close>

theorem parse_json_response_fallback_counterexample:
  "parse_json_response
     (\<lambda>s. if s = replicate 1000 CHR ''[''
          then Inl (RecursionError ''maximum recursion depth exceeded while decoding a JSON array from a unicode string'')
          else Inl JSONDecodeError)
     (replicate 1000 CHR ''['')
   = Inl (RecursionError ''maximum recursion depth exceeded while decoding a JSON array from a unicode string'')
   \<and> spec_parse_json_response
     (\<lambda>s. if s = replicate 1000 CHR ''[''
          then Inl (RecursionError ''maximum recursion depth exceeded while decoding a JSON array from a unicode string'')
          else Inl JSONDecodeError)
     (replicate 1000 CHR ''['')
   = Inl (ValueError ''No valid JSON found in response'')"
  by (rule parse_json_response_unhandled) simp_all

text \<open>
  C1, amended. For every input string, \<^verbatim>\<open>_parse_json_response\<close> returns the parse of the
  whole string when \<^verbatim>\<open>json.loads\<close> accepts it; when \<^verbatim>\<open>json.loads\<close> raises JSONDecodeError
  on it, the result is the parse of the contents of the first \<^verbatim>\<open>```json\<close> fenced block when
  there is one, otherwise the parse of the text from the first \<^verbatim>\<open>{\<close> to the last \<^verbatim>\<open>}\<close> when
  there is one, otherwise ValueError is raised; any other exception of \<^verbatim>\<open>json.loads\<close> on
  the whole string leaves the function and no fallback is tried. The parse of an extracted
  text is the outcome of \<^verbatim>\<open>json.loads\<close> on it, its exceptions included.
\<close>

theorem parse_json_response_amended:
  "parse_json_response loads r =
    (case loads r of
       Inr j \<Rightarrow> Inr j
     | Inl JSONDecodeError \<Rightarrow>
        (case fenced_contents r of
           Some c \<Rightarrow> loads c
         | None \<Rightarrow>
            (case first_to_last_brace r of
               Some m \<Rightarrow> loads m
             | None \<Rightarrow> Inl (ValueError ''No valid JSON found in response'')))
     | Inl e \<Rightarrow> Inl e)"
proof -
  have fence: "(case re_search fence_pattern r of
                  Some json_match \<Rightarrow> f (group1 json_match) | None \<Rightarrow> d)
      = (case fenced_contents r of Some c \<Rightarrow> f c | None \<Rightarrow> d)" for f :: "string \<Rightarrow> error + json" and d
  proof -
    have "fenced_contents r = map_option group1 (re_search fence_pattern r)"
      by (simp only: re_search_fence_pattern search_fence_spec)
    then show ?thesis
      by (cases "re_search fence_pattern r") simp_all
  qed
  have brace: "(case re_search brace_pattern r of
                  Some json_match \<Rightarrow> f (group0 json_match) | None \<Rightarrow> d)
      = (case first_to_last_brace r of Some m \<Rightarrow> f m | None \<Rightarrow> d)" for f :: "string \<Rightarrow> error + json" and d
  proof -
    have "first_to_last_brace r = map_option group0 (re_search brace_pattern r)"
      by (simp only: re_search_brace_pattern search_braces_spec)
    then show ?thesis
      by (cases "re_search brace_pattern r") simp_all
  qed
  show ?thesis
    unfolding parse_json_response_def fence brace ..
qed

subsection \<open>Meal and workout plans\<close>

lemma validate_fallback_meal_plan: "validate_meal_plan (get_fallback_meal_plan p) = Inr True"
  by (simp add: validate_meal_plan_def get_fallback_meal_plan_def)

lemma generate_meal_plan_validates:
  "validate_meal_plan (generate_meal_plan loads api p) = Inr True"
  by (auto simp: generate_meal_plan_def validate_fallback_meal_plan split: sum.splits)

lemma generate_meal_plan_dict_keys:
  assumes "is_dict (generate_meal_plan loads api p)"
  shows "has_field ''daily_calories'' (generate_meal_plan loads api p) \<and>
         has_field ''days'' (generate_meal_plan loads api p)"
proof -
  obtain items where items: "generate_meal_plan loads api p = JObj items"
    using assms by (cases "generate_meal_plan loads api p") auto
  have "validate_meal_plan (JObj items) = Inr True"
    using generate_meal_plan_validates[of loads api p] items by simp
  then show ?thesis
    unfolding items by (auto simp: validate_meal_plan_def split: bool.splits)
qed

text \<open>
  C2. The claim: \<^verbatim>\<open>generate_meal_plan\<close> never raises and always returns a dictionary
  with the keys \<^verbatim>\<open>daily_calories\<close> and \<^verbatim>\<open>days\<close>. The function never raises and what it
  returns always passes the validation (above), but the validation's \<^verbatim>\<open>key in plan\<close>
  also holds of a list that has the two key names as elements: when the provider's text
  decodes to that list, the list itself is returned, which is no dictionary.
\<close>

theorem generate_meal_plan_non_dict:
  assumes "loads s = Inr (JArr [JStr ''daily_calories'', JStr ''days''])"
  shows "generate_meal_plan loads (Inr (JStr s)) p = JArr [JStr ''daily_calories'', JStr ''days'']
         \<and> \<not> is_dict (generate_meal_plan loads (Inr (JStr s)) p)"
  using assms
  by (simp add: generate_meal_plan_def parse_response_value_def parse_json_response_def
      validate_meal_plan_def)

theorem generate_meal_plan_non_dict_witness:
  \<open>generate_meal_plan
     (\<lambda>s. if s = ''["daily_calories", "days"]''
          then Inr (JArr [JStr ''daily_calories'', JStr ''days'']) else Inl JSONDecodeError)
     (Inr (JStr ''["daily_calories", "days"]'')) (JObj [])
   = JArr [JStr ''daily_calories'', JStr ''days'']\<close>
  using generate_meal_plan_non_dict
    [of \<open>\<lambda>s. if s = ''["daily_calories", "days"]''
          then Inr (JArr [JStr ''daily_calories'', JStr ''days'']) else Inl JSONDecodeError\<close>
        \<open>''["daily_calories", "days"]''\<close> "JObj []"]
  by simp

text \<open>
  C3, as claimed: every exercise entry of every day of the plan returned by
  \<^verbatim>\<open>generate_workout_plan\<close> has a \<^verbatim>\<open>sets\<close> and a \<^verbatim>\<open>reps\<close> field. It fails when the
  provider call raises: the fallback plan is returned, whose Plank entry has a
  \<^verbatim>\<open>duration\<close> and no \<^verbatim>\<open>reps\<close>.
\<close>

theorem generate_workout_plan_sets_reps_counterexample:
  "\<not> every_exercise (\<lambda>e. has_field ''sets'' e \<and> has_field ''reps'' e)
       (generate_workout_plan (\<lambda>s. Inl JSONDecodeError) (Inl (OtherError ''connection refused'')) (JObj []))"
  by (simp add: generate_workout_plan_def get_fallback_workout_plan_def every_exercise_def)

text \<open>
  C3, amended. For every user profile the plan returned by \<^verbatim>\<open>generate_workout_plan\<close> is
  either the fixed fallback plan or the decoded AI response, the latter having passed the
  validation (which tests \<^verbatim>\<open>plan_name\<close> and \<^verbatim>\<open>days\<close> and no exercise entry); every
  exercise entry of the fallback plan has a \<^verbatim>\<open>name\<close> and a \<^verbatim>\<open>sets\<close> field and one of
  \<^verbatim>\<open>reps\<close> and \<^verbatim>\<open>duration\<close>.
\<close>

theorem generate_workout_plan_amended:
  "(generate_workout_plan loads api p = get_fallback_workout_plan p
    \<or> (\<exists>s. api = Inr (JStr s)
           \<and> parse_json_response loads s = Inr (generate_workout_plan loads api p)
           \<and> validate_workout_plan (generate_workout_plan loads api p) = Inr True))
   \<and> every_exercise
        (\<lambda>e. has_field ''name'' e \<and> has_field ''sets'' e
              \<and> (has_field ''reps'' e \<or> has_field ''duration'' e))
        (get_fallback_workout_plan p)"
proof
  show "generate_workout_plan loads api p = get_fallback_workout_plan p
    \<or> (\<exists>s. api = Inr (JStr s)
           \<and> parse_json_response loads s = Inr (generate_workout_plan loads api p)
           \<and> validate_workout_plan (generate_workout_plan loads api p) = Inr True)"
    by (auto simp: generate_workout_plan_def parse_response_value_def
        split: sum.splits json.splits)
  show "every_exercise
        (\<lambda>e. has_field ''name'' e \<and> has_field ''sets'' e
              \<and> (has_field ''reps'' e \<or> has_field ''duration'' e))
        (get_fallback_workout_plan p)"
    by (simp add: get_fallback_workout_plan_def every_exercise_def)
qed

subsection \<open>Preferences read from a chat message\<close>



















subsection \<open>Relevant context of a session\<close>

lemma fst_relevant_loop:
  "fst (relevant_loop clock i items cd table) = foldl (\<lambda>cd item. add_context_item item cd) cd items"
  by (induction items arbitrary: i cd table) simp_all

lemma context_lookup_add:
  "context_lookup (add_context_item item cd) t k =
     (if context_type item = t \<and> ctx_key item = k then Some (ctx_value item)
      else context_lookup cd t k)"
proof (cases "map_of cd (context_type item)")
  case None
  then have "context_type item \<notin> set (map fst cd)"
    by (simp add: map_of_eq_None_iff)
  then show ?thesis
    using None
    by (simp add: add_context_item_def context_lookup_def map_of_map_entry update_conv')
next
  case (Some inner)
  then have "context_type item \<in> set (map fst cd)"
    by (metis map_of_eq_None_iff option.distinct(1) set_map)
  then show ?thesis
    using Some
    by (simp add: add_context_item_def context_lookup_def map_of_map_entry update_conv')
qed

lemma context_lookup_foldl:
  assumes "distinct (map (\<lambda>r. (context_type r, ctx_key r)) items)"
  shows "context_lookup (foldl (\<lambda>cd item. add_context_item item cd) [] items) t k = Some v
     \<longleftrightarrow> (\<exists>r \<in> set items. context_type r = t \<and> ctx_key r = k \<and> ctx_value r = v)"
  using assms
proof (induction items rule: rev_induct)
  case Nil
  show ?case by (simp add: context_lookup_def)
next
  case (snoc item items)
  have d: "distinct (map (\<lambda>r. (context_type r, ctx_key r)) items)"
    and fresh: "(context_type item, ctx_key item) \<notin> (\<lambda>r. (context_type r, ctx_key r)) ` set items"
    using snoc.prems by simp_all
  show ?case
  proof (cases "context_type item = t \<and> ctx_key item = k")
    case True
    have "\<not> (\<exists>r \<in> set items. context_type r = t \<and> ctx_key r = k)"
    proof
      assume "\<exists>r \<in> set items. context_type r = t \<and> ctx_key r = k"
      then obtain r where "r \<in> set items" "context_type r = t" "ctx_key r = k"
        by blast
      then have "(context_type item, ctx_key item) \<in> (\<lambda>r. (context_type r, ctx_key r)) ` set items"
        using True by (intro image_eqI[where x = r]) simp_all
      with fresh show False by simp
    qed
    with True show ?thesis
      by (auto simp: context_lookup_add)
  next
    case False
    then show ?thesis
      using snoc.IH[OF d] by (auto simp: context_lookup_add)
  qed
qed

lemma high_importance_distinct:
  assumes "distinct (map (\<lambda>r. (ctx_session r, context_type r, ctx_key r)) table)"
  shows "distinct (map (\<lambda>r. (context_type r, ctx_key r)) (high_importance_context now sid table))"
proof -
  let ?items = "high_importance_context now sid table"
  have "distinct (map (\<lambda>r. (ctx_session r, context_type r, ctx_key r)) ?items)"
    unfolding high_importance_context_def using assms by (intro distinct_map_filter)
  moreover have "map (\<lambda>r. (ctx_session r, context_type r, ctx_key r)) ?items
      = map (\<lambda>p. (sid, p)) (map (\<lambda>r. (context_type r, ctx_key r)) ?items)"
    by (simp add: high_importance_context_def)
  ultimately have "distinct (map (\<lambda>p. (sid, p)) (map (\<lambda>r. (context_type r, ctx_key r)) ?items))"
    by simp
  then show ?thesis
    using distinct_map[of "\<lambda>p. (sid, p)"] by blast
qed

lemma high_importance_set:
  "r \<in> set (high_importance_context now sid table) \<longleftrightarrow>
     r \<in> set table \<and> ctx_session r = sid \<and> importance_score r \<ge> 7 / 10 \<and> \<not> is_expired now r"
  by (auto simp: high_importance_context_def is_expired_def split: option.splits)

text \<open>
  C7. For every chat session, \<^verbatim>\<open>get_relevant_context\<close> returns exactly the session's
  context items whose importance score is at least 0.7 and whose expiry has not passed:
  an item is under its type and key in the result exactly when it is a row of the session
  with such a score that is not expired, where a row without \<^verbatim>\<open>expires_at\<close> never
  expires and a row whose \<^verbatim>\<open>expires_at\<close> is strictly before the current time has.
  The table holds one row at most for a session, type and key (\<^verbatim>\<open>unique_together\<close>).
\<close>

theorem get_relevant_context_exact:
  assumes "distinct (map (\<lambda>r. (ctx_session r, context_type r, ctx_key r)) table)"
  shows "context_lookup (fst (get_relevant_context clock sid table)) t k = Some v
     \<longleftrightarrow> (\<exists>r \<in> set table. ctx_session r = sid \<and> context_type r = t \<and> ctx_key r = k
            \<and> ctx_value r = v \<and> importance_score r \<ge> 7 / 10 \<and> \<not> is_expired (clock 0) r)"
  unfolding get_relevant_context_def fst_relevant_loop
    context_lookup_foldl[OF high_importance_distinct[OF assms]]
  by (auto simp: high_importance_set)

theorem get_relevant_context_exact_witness:
  "context_lookup
     (fst (get_relevant_context (\<lambda>i. 100) 1
       [\<lparr>ctx_id = 1, ctx_session = 1, context_type = ''conversation_memory'',
          ctx_key = ''goal_mentioned_5'', ctx_value = JStr ''run 5k'', importance_score = 8 / 10,
          last_referenced = None, reference_count = 0, expires_at = None,
          auto_refresh = False, ctx_created_at = 0, ctx_updated_at = 0\<rparr>,
        \<lparr>ctx_id = 2, ctx_session = 1, context_type = ''conversation_memory'',
          ctx_key = ''goal_mentioned_3'', ctx_value = JStr ''swim'', importance_score = 8 / 10,
          last_referenced = None, reference_count = 0, expires_at = Some 50,
          auto_refresh = False, ctx_created_at = 0, ctx_updated_at = 0\<rparr>]))
     ''conversation_memory'' ''goal_mentioned_5'' = Some (JStr ''run 5k'')
   \<and> context_lookup
     (fst (get_relevant_context (\<lambda>i. 100) 1
       [\<lparr>ctx_id = 1, ctx_session = 1, context_type = ''conversation_memory'',
          ctx_key = ''goal_mentioned_5'', ctx_value = JStr ''run 5k'', importance_score = 8 / 10,
          last_referenced = None, reference_count = 0, expires_at = None,
          auto_refresh = False, ctx_created_at = 0, ctx_updated_at = 0\<rparr>,
        \<lparr>ctx_id = 2, ctx_session = 1, context_type = ''conversation_memory'',
          ctx_key = ''goal_mentioned_3'', ctx_value = JStr ''swim'', importance_score = 8 / 10,
          last_referenced = None, reference_count = 0, expires_at = Some 50,
          auto_refresh = False, ctx_created_at = 0, ctx_updated_at = 0\<rparr>]))
     ''conversation_memory'' ''goal_mentioned_3'' \<noteq> Some (JStr ''swim'')"
proof -
  let ?r1 = "\<lparr>ctx_id = 1, ctx_session = 1, context_type = ''conversation_memory'',
          ctx_key = ''goal_mentioned_5'', ctx_value = JStr ''run 5k'', importance_score = 8 / 10,
          last_referenced = None, reference_count = 0, expires_at = None,
          auto_refresh = False, ctx_created_at = 0, ctx_updated_at = 0\<rparr>"
  let ?r2 = "\<lparr>ctx_id = 2, ctx_session = 1, context_type = ''conversation_memory'',
          ctx_key = ''goal_mentioned_3'', ctx_value = JStr ''swim'', importance_score = 8 / 10,
          last_referenced = None, reference_count = 0, expires_at = Some 50,
          auto_refresh = False, ctx_created_at = 0, ctx_updated_at = 0\<rparr>"
  have d: "distinct (map (\<lambda>r. (ctx_session r, context_type r, ctx_key r)) [?r1, ?r2])"
    by simp
  note iff = get_relevant_context_exact[OF d, of "\<lambda>i. 100" 1 "''conversation_memory''"]
  have "context_lookup (fst (get_relevant_context (\<lambda>i. 100) 1 [?r1, ?r2]))
      ''conversation_memory'' ''goal_mentioned_5'' = Some (JStr ''run 5k'')"
    unfolding iff by (simp add: is_expired_def)
  moreover have "context_lookup (fst (get_relevant_context (\<lambda>i. 100) 1 [?r1, ?r2]))
      ''conversation_memory'' ''goal_mentioned_3'' \<noteq> Some (JStr ''swim'')"
    unfolding iff by (simp add: is_expired_def)
  ultimately show ?thesis by (rule conjI)
qed

subsection \<open>The AI response to a chat message\<close>

lemma ai_message_fields_generator:
  "ai_message_fields env user_message context (chat_response stream) = Inl AttributeError"
  by (simp add: ai_message_fields_def chat_response_def bind_err_def)

text \<open>
  Had the client returned a dict, the arguments of the stored message would evaluate:
  the failure below comes from the generator object, not from the model of the body.
\<close>

lemma ai_message_fields_dict:
  "\<exists>kwargs. ai_message_fields env user_message context
      (PyDict [(''content'', JStr ''Drink more water'')]) = Inr kwargs"
  by (simp add: ai_message_fields_def determine_response_type_def bind_err_def Let_def)

text \<open>
  C8. For every session and user message, \<^verbatim>\<open>generate_ai_response\<close> takes its exception
  branch and returns a response whose \<^verbatim>\<open>message_type\<close> is \<^verbatim>\<open>error\<close> with the fixed
  apology as content: the body of the \<^verbatim>\<open>try\<close> raises before it stores any message (the
  exception of \<^verbatim>\<open>_build_conversation_context\<close> if that raises, else the AttributeError
  of \<^verbatim>\<open>.get\<close> on the generator object), so the non-error return is never reached.
\<close>

theorem generate_ai_response_error:
  "ai_response_body env session user_message db
     = (db, Inl (case env_context env of Inl e \<Rightarrow> e | Inr context \<Rightarrow> AttributeError))
   \<and> map_of (fst (generate_ai_response env session user_message db)) ''message_type''
       = Some (JStr ''error'')
   \<and> map_of (fst (generate_ai_response env session user_message db)) ''content''
       = Some (JStr apology)"
proof -
  have body: "ai_response_body env session user_message db
     = (db, Inl (case env_context env of Inl e \<Rightarrow> e | Inr context \<Rightarrow> AttributeError))"
    by (cases "env_context env")
      (simp_all add: ai_response_body_def ai_message_fields_generator)
  then show ?thesis
    by (simp add: generate_ai_response_def dict_get_def)
qed

subsection \<open>Chat insights\<close>

lemma models_not_global: "''models'' \<notin> set services_globals"
  by (simp add: services_globals_def)

lemma analyze_communication_patterns_raises:
  assumes "''models'' \<notin> set builtins"
  shows "analyze_communication_patterns builtins round1 messages = Inl (NameError ''models'')"
  using assms models_not_global
  by (simp add: analyze_communication_patterns_def lookup_global_def bind_err_def Let_def)

lemma analyze_communication_patterns_bound:
  assumes "''models'' \<in> set builtins"
  shows "\<exists>patterns. analyze_communication_patterns builtins round1 messages = Inr patterns"
  using assms
  by (simp add: analyze_communication_patterns_def lookup_global_def bind_err_def Let_def)

text \<open>
  C9. For every user and period, \<^verbatim>\<open>generate_user_insights\<close> returns a dict whose
  \<^verbatim>\<open>success\<close> is False: \<^verbatim>\<open>_analyze_communication_patterns\<close> reads the name \<^verbatim>\<open>models\<close>,
  which the module never binds (and which is no builtin), so every call of it raises
  NameError, which the wrapper turns into the failure result.
\<close>

theorem generate_user_insights_fails:
  assumes "''models'' \<notin> set builtins"
  shows "map_of (generate_user_insights builtins round1 analyses now db user period_days) ''success''
           = Some (JBool False)
     \<and> (\<forall>messages.
           analyze_communication_patterns builtins round1 messages = Inl (NameError ''models''))"
proof -
  have raises: "analyze_communication_patterns builtins round1 messages = Inl (NameError ''models'')"
    for messages
    using assms by (rule analyze_communication_patterns_raises)
  have "map_of (generate_user_insights builtins round1 analyses now db user period_days) ''success''
           = Some (JBool False)"
    by (cases "start_date_of now period_days")
      (simp_all add: generate_user_insights_def bind_err_def Let_def raises)
  with raises show ?thesis by simp
qed

theorem generate_user_insights_fails_witness:
  "map_of (generate_user_insights [''len'', ''range'', ''round'', ''dict'', ''sorted'', ''str'']
      (\<lambda>x. x)
      \<lparr>preferred_topics = Inr (JArr []), engagement_trends = Inr (JObj []),
        ai_performance = Inr (JObj []), personalization_opportunities = Inr (JArr []),
        recommended_features = Inr (JArr [])\<rparr>
      1000000 \<lparr>db_messages = [], db_sessions = [], db_analytics = []\<rparr> 1 30) ''success''
     = Some (JBool False)
   \<and> map_of (generate_user_insights [''len'', ''range'', ''round'', ''dict'', ''sorted'', ''str'']
      (\<lambda>x. x)
      \<lparr>preferred_topics = Inr (JArr []), engagement_trends = Inr (JObj []),
        ai_performance = Inr (JObj []), personalization_opportunities = Inr (JArr []),
        recommended_features = Inr (JArr [])\<rparr>
      1000000 \<lparr>db_messages = [], db_sessions = [], db_analytics = []\<rparr> 1 30) ''error''
     = Some (JStr ''name 'models' is not defined'')"
proof -
  have b: "''models'' \<notin> set [''len'', ''range'', ''round'', ''dict'', ''sorted'', ''str'']"
    by simp
  have "map_of (generate_user_insights [''len'', ''range'', ''round'', ''dict'', ''sorted'', ''str'']
      (\<lambda>x. x)
      \<lparr>preferred_topics = Inr (JArr []), engagement_trends = Inr (JObj []),
        ai_performance = Inr (JObj []), personalization_opportunities = Inr (JArr []),
        recommended_features = Inr (JArr [])\<rparr>
      1000000 \<lparr>db_messages = [], db_sessions = [], db_analytics = []\<rparr> 1 30) ''error''
     = Some (JStr ''name 'models' is not defined'')"
    by (simp add: generate_user_insights_def bind_err_def Let_def start_date_of_def
        analyze_communication_patterns_raises[OF b])
  then show ?thesis
    using generate_user_insights_fails[OF b] by simp
qed

subsection \<open>Grocery list\<close>

lemma quantities_of_snoc:
  "quantities_of k (foods @ [mf]) =
     quantities_of k foods @ (if fi_name (mf_food_item mf) = k then [mf_quantity mf] else [])"
  by (simp add: quantities_of_def)

lemma quantities_of_Nil_iff:
  "quantities_of k foods = [] \<longleftrightarrow> k \<notin> (\<lambda>mf. fi_name (mf_food_item mf)) ` set foods"
  by (auto simp: quantities_of_def filter_empty_conv)

lemma float_sum_snoc:
  "float_sum ops (qs @ [q]) = (if qs = [] then q else f_add ops (float_sum ops qs) q)"
  by (cases qs) simp_all

lemma total_quantity_snoc:
  "total_quantity ops k (foods @ [mf]) =
     (if fi_name (mf_food_item mf) = k
      then (if k \<in> (\<lambda>mf. fi_name (mf_food_item mf)) ` set foods
            then f_add ops (total_quantity ops k foods) (mf_quantity mf)
            else mf_quantity mf)
      else total_quantity ops k foods)"
  using quantities_of_Nil_iff[of k foods]
  by (simp add: total_quantity_def quantities_of_snoc float_sum_snoc)

lemma grocery_inv_step:
  assumes "grocery_inv ops foods g"
  shows "grocery_inv ops (foods @ [mf]) (fst (add_meal_food ops (g, c) mf))"
proof (cases "fi_name (mf_food_item mf) \<in> set (map fst g)")
  case True
  let ?n = "fi_name (mf_food_item mf)"
  let ?g' = "AList.map_entry ?n
               (\<lambda>entry. entry\<lparr>gi_quantity := f_add ops (gi_quantity entry) (mf_quantity mf)\<rparr>) g"
  have g': "fst (add_meal_food ops (g, c) mf) = ?g'"
    using True by (simp add: add_meal_food_def Let_def)
  have met: "?n \<in> (\<lambda>mf. fi_name (mf_food_item mf)) ` set foods"
    using assms True by (simp add: grocery_inv_def)
  have "distinct (map fst ?g')"
    using assms by (simp add: grocery_inv_def distinct_map_entry)
  moreover have "fst ` set ?g' = (\<lambda>mf. fi_name (mf_food_item mf)) ` set (foods @ [mf])"
    using assms True by (auto simp: grocery_inv_def dom_map_entry)
  moreover have "gi_name entry = k \<and> gi_quantity entry = total_quantity ops k (foods @ [mf])"
    if "map_of ?g' k = Some entry" for k entry
  proof (cases "k = ?n")
    case False
    then have "map_of g k = Some entry"
      using that by (simp add: map_of_map_entry)
    then show ?thesis
      using assms False by (simp add: grocery_inv_def total_quantity_snoc)
  next
    case k: True
    have "(case map_of g k of None \<Rightarrow> None
            | Some old \<Rightarrow>
                Some (old\<lparr>gi_quantity := f_add ops (gi_quantity old) (mf_quantity mf)\<rparr>))
          = Some entry"
      using that k by (simp add: map_of_map_entry)
    then obtain old where old: "map_of g k = Some old"
      and entry: "entry = old\<lparr>gi_quantity := f_add ops (gi_quantity old) (mf_quantity mf)\<rparr>"
      by (cases "map_of g k") auto
    have "gi_name old = k \<and> gi_quantity old = total_quantity ops k foods"
      using assms old by (simp add: grocery_inv_def)
    then show ?thesis
      using k entry met by (simp add: total_quantity_snoc)
  qed
  ultimately show ?thesis
    unfolding g' grocery_inv_def by blast
next
  case False
  let ?n = "fi_name (mf_food_item mf)"
  let ?new = "\<lparr>gi_name = ?n, gi_quantity = mf_quantity mf, gi_unit = mf_unit mf,
                gi_category = (if fi_category (mf_food_item mf) = [] then ''Other''
                     else fi_category (mf_food_item mf)),
                gi_estimated_cost = estimate_item_cost ops ?n (mf_quantity mf)\<rparr>"
  let ?g' = "AList.update ?n ?new g"
  have g': "fst (add_meal_food ops (g, c) mf) = ?g'"
    using False by (simp add: add_meal_food_def Let_def)
  have absent: "?n \<notin> (\<lambda>mf. fi_name (mf_food_item mf)) ` set foods"
    using assms False by (simp add: grocery_inv_def)
  have "distinct (map fst ?g')"
    using assms by (simp add: grocery_inv_def distinct_update)
  moreover have "fst ` set ?g' = (\<lambda>mf. fi_name (mf_food_item mf)) ` set (foods @ [mf])"
    using assms by (auto simp: grocery_inv_def dom_update)
  moreover have "gi_name entry = k \<and> gi_quantity entry = total_quantity ops k (foods @ [mf])"
    if "map_of ?g' k = Some entry" for k entry
  proof (cases "k = ?n")
    case False
    then have "map_of g k = Some entry"
      using that by (simp add: update_conv')
    then show ?thesis
      using assms False by (simp add: grocery_inv_def total_quantity_snoc)
  next
    case True
    then have "entry = ?new"
      using that by (simp add: update_conv')
    then show ?thesis
      using True absent by (simp add: total_quantity_snoc)
  qed
  ultimately show ?thesis
    unfolding g' grocery_inv_def by blast
qed

lemma grocery_inv_foldl:
  "grocery_inv ops foods (fst (foldl (add_meal_food ops) ([], []) foods))"
proof (induction foods rule: rev_induct)
  case Nil
  show ?case by (simp add: grocery_inv_def)
next
  case (snoc mf foods)
  obtain g c where st: "foldl (add_meal_food ops) ([], []) foods = (g, c)"
    by (cases "foldl (add_meal_food ops) ([], []) foods")
  with snoc have "grocery_inv ops foods g" by simp
  then have "grocery_inv ops (foods @ [mf]) (fst (add_meal_food ops (g, c) mf))"
    by (rule grocery_inv_step)
  then show ?case by (simp add: st)
qed

lemma collect_ingredients_concat:
  "collect_ingredients ops meals = foldl (add_meal_food ops) ([], []) (concat meals)"
proof -
  have "foldl (\<lambda>state meal. foldl (add_meal_food ops) state meal) s meals
        = foldl (add_meal_food ops) s (concat meals)" for s
    by (induction meals arbitrary: s) simp_all
  then show ?thesis by (simp add: collect_ingredients_def)
qed

lemma grocery_inv_entries:
  assumes "grocery_inv ops foods g" and "(k, entry) \<in> set g"
  shows "gi_name entry = k" and "gi_quantity entry = total_quantity ops k foods"
proof -
  have "distinct (map fst g)"
    using assms(1) by (simp add: grocery_inv_def)
  then have "map_of g k = Some entry"
    using assms(2) by (simp add: map_of_eq_Some_iff)
  then show "gi_name entry = k" and "gi_quantity entry = total_quantity ops k foods"
    using assms(1) by (simp_all add: grocery_inv_def)
qed

lemma grocery_inv_names:
  assumes "grocery_inv ops foods g"
  shows "map gi_name (map snd g) = map fst g"
proof -
  have "gi_name (snd p) = fst p" if "p \<in> set g" for p
    using grocery_inv_entries(1)[OF assms, of "fst p" "snd p"] that by simp
  then show ?thesis by simp
qed

text \<open>
  C10. For every meal plan, \<^verbatim>\<open>generate_grocery_list\<close> has a non-error result whenever
  the meals can be read, and in it each distinct food name of the plan's meals occurs
  exactly once in \<^verbatim>\<open>items\<close>, its \<^verbatim>\<open>quantity\<close> is the sum of that food's quantities over
  all its occurrences in the plan (the float sum, formed in the order of the
  occurrences), and \<^verbatim>\<open>total_items\<close> is the number of distinct food names.
\<close>

theorem generate_grocery_list_totals:
  "\<exists>r. generate_grocery_list ops (Inr meals) = Inr r
     \<and> distinct (map gi_name (gl_items r))
     \<and> set (map gi_name (gl_items r)) = set (plan_food_names meals)
     \<and> list_all (\<lambda>entry. gi_quantity entry = total_quantity ops (gi_name entry) (concat meals))
          (gl_items r)
     \<and> gl_total_items r = card (set (plan_food_names meals))"
proof -
  let ?g = "fst (collect_ingredients ops meals)"
  have inv: "grocery_inv ops (concat meals) ?g"
    by (simp add: collect_ingredients_concat grocery_inv_foldl)
  have names: "map gi_name (map snd ?g) = map fst ?g"
    using inv by (rule grocery_inv_names)
  have d: "distinct (map fst ?g)"
    using inv by (simp add: grocery_inv_def)
  have keys: "set (map fst ?g) = set (plan_food_names meals)"
    using inv by (simp add: grocery_inv_def plan_food_names_def)
  have qty: "list_all (\<lambda>entry. gi_quantity entry = total_quantity ops (gi_name entry) (concat meals))
      (map snd ?g)"
  proof -
    have "gi_quantity (snd p) = total_quantity ops (gi_name (snd p)) (concat meals)"
      if "p \<in> set ?g" for p
      using grocery_inv_entries[OF inv, of "fst p" "snd p"] that by simp
    then show ?thesis by (simp add: list_all_iff)
  qed
  have len: "length ?g = card (set (plan_food_names meals))"
    using distinct_card[OF d] keys by simp
  obtain r where r: "generate_grocery_list ops (Inr meals) = Inr r"
    and its: "gl_items r = map snd ?g" and tot: "gl_total_items r = length ?g"
    by (simp add: generate_grocery_list_def Let_def)
  have "distinct (map gi_name (gl_items r))"
    by (simp only: its names d)
  moreover have "set (map gi_name (gl_items r)) = set (plan_food_names meals)"
    by (simp only: its names keys)
  moreover have "list_all (\<lambda>entry. gi_quantity entry = total_quantity ops (gi_name entry) (concat meals))
      (gl_items r)"
    by (simp only: its qty)
  moreover have "gl_total_items r = card (set (plan_food_names meals))"
    by (simp only: tot len)
  ultimately show ?thesis
    using r by blast
qed

subsection \<open>Worked examples\<close>

text \<open>
  The definitions run: the two searches, the parser with a decoder that knows one text,
  and a grocery list of two foods in two meals. In the last the floats are texts and each
  operation writes out what it is applied to, which shows the order of the additions.
\<close>

lemma re_search_fence_example:
  "map_option group1 (re_search fence_pattern ''Here: ```json  {x}  ``` and ```json {y} ```'')
     = Some ''{x}''"
  by code_simp

lemma re_search_brace_example:
  "map_option group0 (re_search brace_pattern ''a } {b {c} d} e { f'') = Some ''{b {c} d}''"
  by code_simp

lemma parse_json_response_example:
  \<open>parse_json_response
     (\<lambda>s. if s = ''{"a": 1}'' then Inr (JObj [(''a'', JInt 1)]) else Inl JSONDecodeError)
     ''Sure! {"a": 1} Enjoy.''
   = Inr (JObj [(''a'', JInt 1)])\<close>
  by code_simp

lemma generate_grocery_list_example:
  "map (\<lambda>e. (gi_name e, gi_quantity e))
     (case generate_grocery_list
        \<lparr>f_add = (\<lambda>a b. ''('' @ a @ '' + '' @ b @ '')''), f_mul = (\<lambda>a b. a @ '' * '' @ b),
         f_div = (\<lambda>a b. a @ '' / '' @ b), f_round2 = (\<lambda>a. ''round('' @ a @ '', 2)''),
         f_lit = (\<lambda>x. ''lit'')\<rparr>
        (Inr [[\<lparr>mf_food_item = \<lparr>fi_name = ''Rice'', fi_category = ''Grains''\<rparr>,
                 mf_quantity = ''33.3'', mf_unit = ''g''\<rparr>,
               \<lparr>mf_food_item = \<lparr>fi_name = ''Egg'', fi_category = []\<rparr>,
                 mf_quantity = ''50.0'', mf_unit = ''g''\<rparr>],
              [\<lparr>mf_food_item = \<lparr>fi_name = ''Rice'', fi_category = ''Grains''\<rparr>,
                 mf_quantity = ''66.6'', mf_unit = ''g''\<rparr>,
               \<lparr>mf_food_item = \<lparr>fi_name = ''Rice'', fi_category = ''Grains''\<rparr>,
                 mf_quantity = ''0.1'', mf_unit = ''g''\<rparr>]]) of
        Inr r \<Rightarrow> gl_items r | Inl e \<Rightarrow> [])
   = [(''Rice'', ''((33.3 + 66.6) + 0.1)''), (''Egg'', ''50.0'')]"
  by code_simp

end
